theory Spec2Isabelle
  imports Main "HOL-Library.Word"
begin

section \<open>The CodeDeploy deployment-config resource\<close>

text \<open>
  A shallow embedding of \<^verbatim>\<open>internal/service/deploy/deployment_config.go\<close>: the
  expand functions (configuration to API shape), the flatten functions (API shape to
  state values), the lookup \<^verbatim>\<open>findDeploymentConfigByName\<close> and the three lifecycle
  callbacks. Go's \<^verbatim>\<open>int\<close> is taken at its width on a 64-bit platform.
\<close>

subsection \<open>Go values held in \<^verbatim>\<open>interface{}\<close>\<close>

type_synonym int32 = "32 word"
type_synonym int64 = "64 word"

text \<open>
  The dynamic types that occur in this file: \<^verbatim>\<open>nil\<close>, \<^verbatim>\<open>string\<close>, \<^verbatim>\<open>int\<close>,
  \<^verbatim>\<open>int32\<close>, \<^verbatim>\<open>*int64\<close>, \<^verbatim>\<open>*string\<close>, \<^verbatim>\<open>[]interface{}\<close>, \<^verbatim>\<open>map[string]interface{}\<close> and
  \<^verbatim>\<open>[]map[string]interface{}\<close>. A slice built by the flatten functions is either
  \<^verbatim>\<open>nil\<close> (\<open>None\<close>) or allocated (\<open>Some\<close>), which Go tells apart.
\<close>

datatype val =
    VNil
  | VString string
  | VInt int64
  | VInt32 int32
  | VInt64Ptr "int64 option"
  | VStringPtr "string option"
  | VList "val list"
  | VMap "string \<Rightarrow> val option"
  | VMaps "(string \<Rightarrow> val option) list option"

type_synonym attrs = "string \<Rightarrow> val option"
type_synonym maps = "attrs list option"

datatype panic = InterfaceConversion | IndexOutOfRange | NilDereference

definition bindP :: "panic + 'a \<Rightarrow> ('a \<Rightarrow> panic + 'b) \<Rightarrow> panic + 'b" where
  "bindP r f = (case r of Inl p \<Rightarrow> Inl p | Inr x \<Rightarrow> f x)"

text \<open>Type assertions \<^verbatim>\<open>v.(T)\<close> panic on any other dynamic type, \<^verbatim>\<open>nil\<close> included.\<close>

definition asString :: "val \<Rightarrow> panic + string" where
  "asString v = (case v of VString s \<Rightarrow> Inr s | _ \<Rightarrow> Inl InterfaceConversion)"

definition asInt :: "val \<Rightarrow> panic + int64" where
  "asInt v = (case v of VInt i \<Rightarrow> Inr i | _ \<Rightarrow> Inl InterfaceConversion)"

definition asList :: "val \<Rightarrow> panic + val list" where
  "asList v = (case v of VList xs \<Rightarrow> Inr xs | _ \<Rightarrow> Inl InterfaceConversion)"

definition asMap :: "val \<Rightarrow> panic + attrs" where
  "asMap v = (case v of VMap m \<Rightarrow> Inr m | _ \<Rightarrow> Inl InterfaceConversion)"

text \<open>The two-result form \<^verbatim>\<open>i, ok := v.(int)\<close> does not panic.\<close>

definition asIntOk :: "val \<Rightarrow> int64 \<times> bool" where
  "asIntOk v = (case v of VInt i \<Rightarrow> (i, True) | _ \<Rightarrow> (0, False))"

text \<open>\<^verbatim>\<open>xs[0]\<close> panics on an empty slice.\<close>

definition index0 :: "val list \<Rightarrow> panic + val" where
  "index0 xs = (case xs of [] \<Rightarrow> Inl IndexOutOfRange | x # _ \<Rightarrow> Inr x)"

text \<open>\<^verbatim>\<open>m[k]\<close> is \<^verbatim>\<open>nil\<close> for a missing key; \<^verbatim>\<open>v, ok := m[k]\<close> also reports presence.\<close>

definition mapIndex :: "attrs \<Rightarrow> string \<Rightarrow> val" where
  "mapIndex m k = (case m k of None \<Rightarrow> VNil | Some v \<Rightarrow> v)"

definition mapIndexOk :: "attrs \<Rightarrow> string \<Rightarrow> val \<times> bool" where
  "mapIndexOk m k = (case m k of None \<Rightarrow> (VNil, False) | Some v \<Rightarrow> (v, True))"

text \<open>\<^verbatim>\<open>int32(i)\<close> keeps the low 32 bits of a 64-bit \<^verbatim>\<open>int\<close>.\<close>

definition int32_of_int :: "int64 \<Rightarrow> int32" where
  "int32_of_int i = scast i"

subsection \<open>The API shapes (\<^verbatim>\<open>codedeploy/types\<close>)\<close>

text \<open>The enumerations are Go string types, and the conversions to them are casts.\<close>

record MinimumHealthyHosts =
  MinimumHealthyHosts_Type :: string
  MinimumHealthyHosts_Value :: int32

record TimeBasedCanary =
  CanaryInterval :: int32
  CanaryPercentage :: int32

record TimeBasedLinear =
  LinearInterval :: int32
  LinearPercentage :: int32

record TrafficRoutingConfig =
  TrafficRoutingConfig_Type :: string
  TrafficRoutingConfig_TimeBasedCanary :: "TimeBasedCanary option"
  TrafficRoutingConfig_TimeBasedLinear :: "TimeBasedLinear option"

record MinimumHealthyHostsPerZone =
  MinimumHealthyHostsPerZone_Type :: string
  MinimumHealthyHostsPerZone_Value :: int32

record ZonalConfig =
  FirstZoneMonitorDurationInSeconds :: "int64 option"
  ZonalConfig_MinimumHealthyHostsPerZone :: "MinimumHealthyHostsPerZone option"
  MonitorDurationInSeconds :: "int64 option"

record DeploymentConfigInfo =
  Info_ComputePlatform :: string
  Info_DeploymentConfigId :: "string option"
  Info_DeploymentConfigName :: "string option"
  Info_MinimumHealthyHosts :: "MinimumHealthyHosts option"
  Info_TrafficRoutingConfig :: "TrafficRoutingConfig option"
  Info_ZonalConfig :: "ZonalConfig option"

record CreateDeploymentConfigInput =
  Create_ComputePlatform :: string
  Create_DeploymentConfigName :: "string option"
  Create_MinimumHealthyHosts :: "MinimumHealthyHosts option"
  Create_TrafficRoutingConfig :: "TrafficRoutingConfig option"
  Create_ZonalConfig :: "ZonalConfig option"

record GetDeploymentConfigInput =
  Get_DeploymentConfigName :: "string option"

record GetDeploymentConfigOutput =
  Output_DeploymentConfigInfo :: "DeploymentConfigInfo option"

record DeleteDeploymentConfigInput =
  Delete_DeploymentConfigName :: "string option"

subsection \<open>Errors and diagnostics\<close>

text \<open>
  What a call of the SDK client can fail with: the designated exception
  \<^verbatim>\<open>*types.DeploymentConfigDoesNotExistException\<close>, or anything else.
\<close>

datatype apiError =
    DeploymentConfigDoesNotExistException string
  | OtherAPIError string

text \<open>
  The Go \<^verbatim>\<open>error\<close> values of this file: an error of the client passed on as it is,
  \<^verbatim>\<open>&retry.NotFoundError{LastError, LastRequest}\<close>, the result of
  \<^verbatim>\<open>tfresource.NewEmptyResultError(input)\<close>, and an error returned by \<^verbatim>\<open>d.Set\<close>.
\<close>

datatype error =
    ClientError apiError
  | NotFoundError apiError GetDeploymentConfigInput
  | EmptyResultError GetDeploymentConfigInput
  | SetError string

text \<open>
  Modelled from the spec: \<^verbatim>\<open>errs.IsA[*types.DeploymentConfigDoesNotExistException]\<close>
  (package \<^verbatim>\<open>internal/errs\<close>) recognises the designated not-found exception of the API.
\<close>

definition IsA_DeploymentConfigDoesNotExistException :: "apiError \<Rightarrow> bool" where
  "IsA_DeploymentConfigDoesNotExistException e =
     (case e of DeploymentConfigDoesNotExistException _ \<Rightarrow> True | OtherAPIError _ \<Rightarrow> False)"

text \<open>
  Modelled from the spec: \<^verbatim>\<open>tfresource.NotFound\<close> (package \<^verbatim>\<open>internal/tfresource\<close>)
  recognises the structured not-found signal, and no \<^verbatim>\<open>nil\<close> error. Whether it also
  recognises an empty-result error is decided outside this file: that answer is the
  parameter \<open>emptyIsNotFound\<close>.
\<close>

definition NotFound :: "bool \<Rightarrow> error option \<Rightarrow> bool" where
  "NotFound emptyIsNotFound err =
     (case err of
        None \<Rightarrow> False
      | Some (NotFoundError _ _) \<Rightarrow> True
      | Some (EmptyResultError _) \<Rightarrow> emptyIsNotFound
      | Some _ \<Rightarrow> False)"

text \<open>
  Modelled from the spec: \<^verbatim>\<open>sdkdiag.AppendErrorf(diags, format, ..., err)\<close> (package
  \<^verbatim>\<open>internal/errs/sdkdiag\<close>) appends one error diagnostic. Every format of this file
  ends in \<^verbatim>\<open>%s\<close> for the error: the diagnostic keeps the text before it, with the
  other arguments filled in, and the error itself.
\<close>

datatype Diagnostic = ErrorDiagnostic string error

definition AppendErrorf :: "Diagnostic list \<Rightarrow> string \<Rightarrow> error \<Rightarrow> Diagnostic list" where
  "AppendErrorf diags msg err = diags @ [ErrorDiagnostic msg err]"

definition HasError :: "Diagnostic list \<Rightarrow> bool" where
  "HasError diags = (diags \<noteq> [])"

subsection \<open>The schema declared by \<^verbatim>\<open>resourceDeploymentConfig\<close>\<close>

datatype ValueType = TypeString | TypeInt | TypeList

text \<open>The enumeration named by \<^verbatim>\<open>enum.Validate[T]()\<close>.\<close>

datatype EnumType =
  ComputePlatform | MinimumHealthyHostsType | TrafficRoutingType | MinimumHealthyHostsPerZoneType

text \<open>
  One \<^verbatim>\<open>schema.Schema\<close> literal: the fields this file sets, in the order \<open>Type\<close>,
  \<open>Optional\<close>, \<open>Required\<close>, \<open>Computed\<close>, \<open>ForceNew\<close>, \<open>Default\<close>, \<open>ValidateDiagFunc\<close>,
  \<open>MaxItems\<close>, \<open>ConflictsWith\<close>, and the schema map of \<open>Elem\<close> (empty when there is
  none). A field left out of a literal has Go's zero value.
\<close>

datatype Schema = Schema
  (Type: ValueType) (Optional: bool) (Required: bool) (Computed: bool) (ForceNew: bool)
  (Default: "string option") (ValidateDiagFunc: "EnumType option") (MaxItems: nat)
  (ConflictsWith: "string list") (Elem: "(string \<times> Schema) list")

definition optionalInt :: Schema where
  "optionalInt = Schema TypeInt True False False True None None 0 [] []"

definition optionalEnum :: "EnumType \<Rightarrow> Schema" where
  "optionalEnum e = Schema TypeString True False False True None (Some e) 0 [] []"

text \<open>\<^verbatim>\<open>types.ComputePlatformServer\<close> is the string \<^verbatim>\<open>Server\<close>.\<close>

definition compute_platform_schema :: Schema where
  "compute_platform_schema =
     Schema TypeString True False False True (Some ''Server'') (Some ComputePlatform) 0 [] []"

definition deployment_config_id_schema :: Schema where
  "deployment_config_id_schema = Schema TypeString False False True False None None 0 [] []"

definition deployment_config_name_schema :: Schema where
  "deployment_config_name_schema = Schema TypeString False True False True None None 0 [] []"

definition minimum_healthy_hosts_schema :: Schema where
  "minimum_healthy_hosts_schema =
     Schema TypeList True False False True None None 1 []
       [(''type'', optionalEnum MinimumHealthyHostsType),
        (''value'', optionalInt)]"

definition time_based_canary_schema :: Schema where
  "time_based_canary_schema =
     Schema TypeList True False False True None None 1
       [''traffic_routing_config.0.time_based_linear'']
       [(''interval'', optionalInt),
        (''percentage'', optionalInt)]"

definition time_based_linear_schema :: Schema where
  "time_based_linear_schema =
     Schema TypeList True False False True None None 1
       [''traffic_routing_config.0.time_based_canary'']
       [(''interval'', optionalInt),
        (''percentage'', optionalInt)]"

definition traffic_routing_config_schema :: Schema where
  "traffic_routing_config_schema =
     Schema TypeList True False False True None None 1 []
       [(''time_based_canary'', time_based_canary_schema),
        (''time_based_linear'', time_based_linear_schema),
        (''type'', optionalEnum TrafficRoutingType)]"

definition minimum_healthy_hosts_per_zone_schema :: Schema where
  "minimum_healthy_hosts_per_zone_schema =
     Schema TypeList True False False True None None 1 []
       [(''type'', optionalEnum MinimumHealthyHostsPerZoneType),
        (''value'', optionalInt)]"

definition zonal_config_schema :: Schema where
  "zonal_config_schema =
     Schema TypeList True False False True None None 1 []
       [(''first_zone_monitor_duration_in_seconds'', optionalInt),
        (''minimum_healthy_hosts_per_zone'', minimum_healthy_hosts_per_zone_schema),
        (''monitor_duration_in_seconds'', optionalInt)]"

definition resourceDeploymentConfig_Schema :: "(string \<times> Schema) list" where
  "resourceDeploymentConfig_Schema =
     [(''compute_platform'', compute_platform_schema),
      (''deployment_config_id'', deployment_config_id_schema),
      (''deployment_config_name'', deployment_config_name_schema),
      (''minimum_healthy_hosts'', minimum_healthy_hosts_schema),
      (''traffic_routing_config'', traffic_routing_config_schema),
      (''zonal_config'', zonal_config_schema)]"

subsection \<open>The resource data of the plugin SDK\<close>

text \<open>
  \<^verbatim>\<open>schema.ResourceData\<close> belongs to the plugin SDK, not to this repository. The model
  keeps what this file uses of it: the identifier (\<^verbatim>\<open>d.Id\<close>, \<^verbatim>\<open>d.SetId\<close>), the
  new-resource mark (\<^verbatim>\<open>d.IsNewResource\<close>) and the attribute values (\<^verbatim>\<open>d.Get\<close>,
  \<^verbatim>\<open>d.GetOk\<close>, \<^verbatim>\<open>d.Set\<close>). Whether a \<^verbatim>\<open>d.Set\<close> is refused is the SDK's verdict, the
  field \<open>rd_setError\<close>.
\<close>

record ResourceData =
  rd_Id :: string
  rd_IsNewResource :: bool
  rd_values :: attrs
  rd_setError :: "string \<Rightarrow> val \<Rightarrow> error option"

definition d_Id :: "ResourceData \<Rightarrow> string" where
  "d_Id d = rd_Id d"

definition d_SetId :: "string \<Rightarrow> ResourceData \<Rightarrow> ResourceData" where
  "d_SetId v d = d\<lparr>rd_Id := v\<rparr>"

definition d_IsNewResource :: "ResourceData \<Rightarrow> bool" where
  "d_IsNewResource d = rd_IsNewResource d"

text \<open>
  \<^verbatim>\<open>d.Get\<close> answers by the schema: for an attribute that is not set, the \<open>Default\<close>
  of its schema when there is one, and the zero value of its type otherwise.
\<close>

definition zeroValue :: "ValueType \<Rightarrow> val" where
  "zeroValue ty = (case ty of TypeString \<Rightarrow> VString [] | TypeInt \<Rightarrow> VInt 0 | TypeList \<Rightarrow> VList [])"

definition d_Get :: "ResourceData \<Rightarrow> string \<Rightarrow> val" where
  "d_Get d k =
     (case rd_values d k of
        Some v \<Rightarrow> v
      | None \<Rightarrow>
          (case map_of resourceDeploymentConfig_Schema k of
             None \<Rightarrow> VNil
           | Some s \<Rightarrow>
               (case Default s of
                  Some dv \<Rightarrow> VString dv
                | None \<Rightarrow> zeroValue (Type s))))"

text \<open>\<^verbatim>\<open>d.GetOk\<close> reports \<^verbatim>\<open>ok\<close> when the value is set to something other than the zero value.\<close>

fun isZero :: "val \<Rightarrow> bool" where
  "isZero VNil = True"
| "isZero (VString s) = (s = [])"
| "isZero (VInt i) = (i = 0)"
| "isZero (VList xs) = (xs = [])"
| "isZero (VInt32 i) = False"
| "isZero (VInt64Ptr p) = False"
| "isZero (VStringPtr p) = False"
| "isZero (VMap m) = False"
| "isZero (VMaps ms) = False"

definition d_GetOk :: "ResourceData \<Rightarrow> string \<Rightarrow> val \<times> bool" where
  "d_GetOk d k = (let v = d_Get d k in (v, \<not> isZero v))"

text \<open>
  \<^verbatim>\<open>d.Set\<close> stores a value in the representation that \<^verbatim>\<open>d.Get\<close> returns for the
  schema's types: a string for \<^verbatim>\<open>TypeString\<close>, an \<^verbatim>\<open>int\<close> for \<^verbatim>\<open>TypeInt\<close> (an
  \<^verbatim>\<open>int32\<close> sign-extended, a pointer dereferenced, a \<^verbatim>\<open>nil\<close> pointer the zero
  value of the type: after \<^verbatim>\<open>d.Set\<close> of a \<^verbatim>\<open>nil\<close> \<^verbatim>\<open>*string\<close>, \<^verbatim>\<open>d.Get\<close> returns the
  empty string), a
  \<^verbatim>\<open>[]interface{}\<close> of \<^verbatim>\<open>map[string]interface{}\<close> for a \<^verbatim>\<open>TypeList\<close> of blocks (a
  \<^verbatim>\<open>nil\<close> slice the empty list).
\<close>

primrec toState :: "val \<Rightarrow> val" where
  "toState VNil = VNil"
| "toState (VString s) = VString s"
| "toState (VInt i) = VInt i"
| "toState (VInt32 i) = VInt (scast i)"
| "toState (VInt64Ptr p) = (case p of None \<Rightarrow> VInt 0 | Some i \<Rightarrow> VInt i)"
| "toState (VStringPtr p) = (case p of None \<Rightarrow> VString [] | Some s \<Rightarrow> VString s)"
| "toState (VList xs) = VList (map toState xs)"
| "toState (VMap m) = VMap (\<lambda>k. map_option toState (m k))"
| "toState (VMaps ms) =
     VList (case map_option (map ((\<circ>) (map_option toState))) ms of
              None \<Rightarrow> [] | Some l \<Rightarrow> map VMap l)"

definition d_Set :: "string \<Rightarrow> val \<Rightarrow> ResourceData \<Rightarrow> error option \<times> ResourceData" where
  "d_Set k v d =
     (case rd_setError d k v of
        Some e \<Rightarrow> (Some e, d)
      | None \<Rightarrow> (None, d\<lparr>rd_values := (rd_values d)(k \<mapsto> toState v)\<rparr>))"

subsection \<open>expand: from the configuration to the API shape\<close>

definition expandMinimumHealthyHosts :: "ResourceData \<Rightarrow> panic + MinimumHealthyHosts option" where
  "expandMinimumHealthyHosts d =
     (let (hosts, ok) = d_GetOk d ''minimum_healthy_hosts'' in
      if \<not> ok then Inr None
      else
        bindP (asList hosts) (\<lambda>l.
        bindP (index0 l) (\<lambda>e.
        bindP (asMap e) (\<lambda>host.
        bindP (asString (mapIndex host ''type'')) (\<lambda>t.
        bindP (asInt (mapIndex host ''value'')) (\<lambda>v.
        Inr (Some \<lparr>MinimumHealthyHosts_Type = t,
                   MinimumHealthyHosts_Value = int32_of_int v\<rparr>)))))))"

definition expandTimeBasedCanary :: "attrs \<Rightarrow> panic + TimeBasedCanary" where
  "expandTimeBasedCanary config =
     (let canary = \<lparr>CanaryInterval = 0, CanaryPercentage = 0\<rparr> in
      bindP (let (interval, ok) = mapIndexOk config ''interval'' in
             if ok then bindP (asInt interval) (\<lambda>i. Inr (canary\<lparr>CanaryInterval := int32_of_int i\<rparr>))
             else Inr canary) (\<lambda>canary.
      bindP (let (percentage, ok) = mapIndexOk config ''percentage'' in
             if ok then bindP (asInt percentage) (\<lambda>i. Inr (canary\<lparr>CanaryPercentage := int32_of_int i\<rparr>))
             else Inr canary) (\<lambda>canary.
      Inr canary)))"

definition expandTimeBasedLinear :: "attrs \<Rightarrow> panic + TimeBasedLinear" where
  "expandTimeBasedLinear config =
     (let linear = \<lparr>LinearInterval = 0, LinearPercentage = 0\<rparr> in
      bindP (let (interval, ok) = mapIndexOk config ''interval'' in
             if ok then bindP (asInt interval) (\<lambda>i. Inr (linear\<lparr>LinearInterval := int32_of_int i\<rparr>))
             else Inr linear) (\<lambda>linear.
      bindP (let (percentage, ok) = mapIndexOk config ''percentage'' in
             if ok then bindP (asInt percentage) (\<lambda>i. Inr (linear\<lparr>LinearPercentage := int32_of_int i\<rparr>))
             else Inr linear) (\<lambda>linear.
      Inr linear)))"

definition expandTrafficRoutingConfig :: "ResourceData \<Rightarrow> panic + TrafficRoutingConfig option" where
  "expandTrafficRoutingConfig d =
     (let (block, ok) = d_GetOk d ''traffic_routing_config'' in
      if \<not> ok then Inr None
      else
        bindP (asList block) (\<lambda>l.
        bindP (index0 l) (\<lambda>e.
        bindP (asMap e) (\<lambda>config.
        let trafficRoutingConfig =
              \<lparr>TrafficRoutingConfig_Type = [],
               TrafficRoutingConfig_TimeBasedCanary = None,
               TrafficRoutingConfig_TimeBasedLinear = None\<rparr> in
        bindP (let (trafficType, ok) = mapIndexOk config ''type'' in
               if ok then bindP (asString trafficType) (\<lambda>t.
                            Inr (trafficRoutingConfig\<lparr>TrafficRoutingConfig_Type := t\<rparr>))
               else Inr trafficRoutingConfig) (\<lambda>trafficRoutingConfig.
        bindP (let (canary, ok) = mapIndexOk config ''time_based_canary'' in
               if ok then
                 bindP (asList canary) (\<lambda>cl.
                 if length cl > 0 then
                   bindP (index0 cl) (\<lambda>ce.
                   bindP (asMap ce) (\<lambda>canaryConfig.
                   bindP (expandTimeBasedCanary canaryConfig) (\<lambda>c.
                   Inr (trafficRoutingConfig\<lparr>TrafficRoutingConfig_TimeBasedCanary := Some c\<rparr>))))
                 else Inr trafficRoutingConfig)
               else Inr trafficRoutingConfig) (\<lambda>trafficRoutingConfig.
        bindP (let (linear, ok) = mapIndexOk config ''time_based_linear'' in
               if ok then
                 bindP (asList linear) (\<lambda>ll.
                 if length ll > 0 then
                   bindP (index0 ll) (\<lambda>le.
                   bindP (asMap le) (\<lambda>linearConfig.
                   bindP (expandTimeBasedLinear linearConfig) (\<lambda>c.
                   Inr (trafficRoutingConfig\<lparr>TrafficRoutingConfig_TimeBasedLinear := Some c\<rparr>))))
                 else Inr trafficRoutingConfig)
               else Inr trafficRoutingConfig) (\<lambda>trafficRoutingConfig.
        Inr (Some trafficRoutingConfig))))))))"

definition expandMinimumHealthyHostsPerZone :: "attrs \<Rightarrow> panic + MinimumHealthyHostsPerZone" where
  "expandMinimumHealthyHostsPerZone config =
     bindP (asString (mapIndex config ''type'')) (\<lambda>t.
     bindP (asInt (mapIndex config ''value'')) (\<lambda>v.
     Inr \<lparr>MinimumHealthyHostsPerZone_Type = t,
          MinimumHealthyHostsPerZone_Value = int32_of_int v\<rparr>))"

text \<open>\<^verbatim>\<open>aws.Int64(int64(i))\<close> is a fresh non-\<^verbatim>\<open>nil\<close> pointer to the same 64-bit value.\<close>

definition expandZonalConfig :: "ResourceData \<Rightarrow> panic + ZonalConfig option" where
  "expandZonalConfig d =
     (let (block, ok) = d_GetOk d ''zonal_config'' in
      if \<not> ok then Inr None
      else
        bindP (asList block) (\<lambda>l.
        bindP (index0 l) (\<lambda>e.
        bindP (asMap e) (\<lambda>config.
        let zonalConfig =
              \<lparr>FirstZoneMonitorDurationInSeconds = None,
               ZonalConfig_MinimumHealthyHostsPerZone = None,
               MonitorDurationInSeconds = None\<rparr>;
            zonalConfig =
              (let (firstZoneMonitorDurationInSeconds, ok) =
                     asIntOk (mapIndex config ''first_zone_monitor_duration_in_seconds'') in
               if ok then zonalConfig\<lparr>FirstZoneMonitorDurationInSeconds :=
                                       Some firstZoneMonitorDurationInSeconds\<rparr>
               else zonalConfig) in
        bindP (let (minimumHealthyHostsPerZoneType, ok) =
                     mapIndexOk config ''minimum_healthy_hosts_per_zone'' in
               if ok then
                 bindP (asList minimumHealthyHostsPerZoneType) (\<lambda>ml.
                 if length ml > 0 then
                   bindP (index0 ml) (\<lambda>me.
                   bindP (asMap me) (\<lambda>minimumHealthyHostsPerZoneConfig.
                   bindP (expandMinimumHealthyHostsPerZone minimumHealthyHostsPerZoneConfig) (\<lambda>z.
                   Inr (zonalConfig\<lparr>ZonalConfig_MinimumHealthyHostsPerZone := Some z\<rparr>))))
                 else Inr zonalConfig)
               else Inr zonalConfig) (\<lambda>zonalConfig.
        let zonalConfig =
              (let (monitorDurationInSeconds, ok) =
                     asIntOk (mapIndex config ''monitor_duration_in_seconds'') in
               if ok then zonalConfig\<lparr>MonitorDurationInSeconds := Some monitorDurationInSeconds\<rparr>
               else zonalConfig) in
        Inr (Some zonalConfig))))))"

subsection \<open>flatten: from the API shape to state values\<close>

text \<open>\<^verbatim>\<open>append(result, item)\<close>; on a \<^verbatim>\<open>nil\<close> slice it allocates.\<close>

definition append_item :: "maps \<Rightarrow> attrs \<Rightarrow> maps" where
  "append_item result item = (case result of None \<Rightarrow> Some [item] | Some r \<Rightarrow> Some (r @ [item]))"

definition flattenMinimumHealthHosts :: "MinimumHealthyHosts option \<Rightarrow> maps" where
  "flattenMinimumHealthHosts hosts =
     (let result = Some [] in
      case hosts of
        None \<Rightarrow> result
      | Some h \<Rightarrow>
          let item = Map.empty;
              item = item(''type'' \<mapsto> VString (MinimumHealthyHosts_Type h));
              item = item(''value'' \<mapsto> VInt32 (MinimumHealthyHosts_Value h))
          in append_item result item)"

definition flattenTimeBasedCanary :: "TimeBasedCanary option \<Rightarrow> maps" where
  "flattenTimeBasedCanary canary =
     (let result = Some [] in
      case canary of
        None \<Rightarrow> result
      | Some c \<Rightarrow>
          let item = Map.empty;
              item = item(''interval'' \<mapsto> VInt32 (CanaryInterval c));
              item = item(''percentage'' \<mapsto> VInt32 (CanaryPercentage c))
          in append_item result item)"

definition flattenTimeBasedLinear :: "TimeBasedLinear option \<Rightarrow> maps" where
  "flattenTimeBasedLinear linear =
     (let result = Some [] in
      case linear of
        None \<Rightarrow> result
      | Some c \<Rightarrow>
          let item = Map.empty;
              item = item(''interval'' \<mapsto> VInt32 (LinearInterval c));
              item = item(''percentage'' \<mapsto> VInt32 (LinearPercentage c))
          in append_item result item)"

definition flattenTrafficRoutingConfig :: "TrafficRoutingConfig option \<Rightarrow> maps" where
  "flattenTrafficRoutingConfig config =
     (let result = Some [] in
      case config of
        None \<Rightarrow> result
      | Some c \<Rightarrow>
          let item = Map.empty;
              item = item(''type'' \<mapsto> VString (TrafficRoutingConfig_Type c));
              item = item(''time_based_canary'' \<mapsto>
                       VMaps (flattenTimeBasedCanary (TrafficRoutingConfig_TimeBasedCanary c)));
              item = item(''time_based_linear'' \<mapsto>
                       VMaps (flattenTimeBasedLinear (TrafficRoutingConfig_TimeBasedLinear c)))
          in append_item result item)"

definition flattenMinimumHealthHostsPerZone :: "MinimumHealthyHostsPerZone option \<Rightarrow> maps" where
  "flattenMinimumHealthHostsPerZone config =
     (let result = Some [] in
      case config of
        None \<Rightarrow> None
      | Some c \<Rightarrow>
          let item = Map.empty;
              item = item(''type'' \<mapsto> VString (MinimumHealthyHostsPerZone_Type c));
              item = item(''value'' \<mapsto> VInt32 (MinimumHealthyHostsPerZone_Value c))
          in append_item result item)"

text \<open>
  \<^verbatim>\<open>*config.FirstZoneMonitorDurationInSeconds\<close> and \<^verbatim>\<open>*config.MonitorDurationInSeconds\<close>
  are dereferenced with no check: a \<^verbatim>\<open>nil\<close> pointer there panics.
\<close>

definition deref :: "'a option \<Rightarrow> panic + 'a" where
  "deref p = (case p of None \<Rightarrow> Inl NilDereference | Some x \<Rightarrow> Inr x)"

definition flattenZonalConfig :: "ZonalConfig option \<Rightarrow> panic + maps" where
  "flattenZonalConfig config =
     (let result = Some [] in
      case config of
        None \<Rightarrow> Inr None
      | Some c \<Rightarrow>
          let item = Map.empty in
          bindP (deref (FirstZoneMonitorDurationInSeconds c)) (\<lambda>first.
          let item = item(''first_zone_monitor_duration_in_seconds'' \<mapsto> VInt64Ptr (Some first));
              item = item(''minimum_healthy_hosts_per_zone'' \<mapsto>
                       VMaps (flattenMinimumHealthHostsPerZone
                                (ZonalConfig_MinimumHealthyHostsPerZone c))) in
          bindP (deref (MonitorDurationInSeconds c)) (\<lambda>monitor.
          let item = item(''monitor_duration_in_seconds'' \<mapsto> VInt64Ptr (Some monitor))
          in Inr (append_item result item))))"

subsection \<open>The client and the requests it is sent\<close>

text \<open>
  The CodeDeploy client belongs to the AWS SDK. Its three operations are parameters: each
  takes the request and the remote state \<open>'w\<close> and answers with an error or a result.
  \<^verbatim>\<open>GetDeploymentConfig\<close> may answer with a \<^verbatim>\<open>nil\<close> output. The connection records
  every request sent through it, in order.
\<close>

record 'w Client =
  CreateDeploymentConfig :: "CreateDeploymentConfigInput \<Rightarrow> 'w \<Rightarrow> apiError option \<times> 'w"
  GetDeploymentConfig ::
    "GetDeploymentConfigInput \<Rightarrow> 'w \<Rightarrow> (apiError + GetDeploymentConfigOutput option) \<times> 'w"
  DeleteDeploymentConfig :: "DeleteDeploymentConfigInput \<Rightarrow> 'w \<Rightarrow> apiError option \<times> 'w"

datatype request =
    CreateRequest CreateDeploymentConfigInput
  | GetRequest GetDeploymentConfigInput
  | DeleteRequest DeleteDeploymentConfigInput

record 'w conn =
  conn_client :: "'w Client"
  conn_remote :: 'w
  conn_requests :: "request list"

definition conn_CreateDeploymentConfig ::
  "'w conn \<Rightarrow> CreateDeploymentConfigInput \<Rightarrow> apiError option \<times> 'w conn" where
  "conn_CreateDeploymentConfig conn input =
     (let (r, w) = CreateDeploymentConfig (conn_client conn) input (conn_remote conn)
      in (r, conn\<lparr>conn_remote := w,
                  conn_requests := conn_requests conn @ [CreateRequest input]\<rparr>))"

definition conn_GetDeploymentConfig ::
  "'w conn \<Rightarrow> GetDeploymentConfigInput \<Rightarrow>
     (apiError + GetDeploymentConfigOutput option) \<times> 'w conn" where
  "conn_GetDeploymentConfig conn input =
     (let (r, w) = GetDeploymentConfig (conn_client conn) input (conn_remote conn)
      in (r, conn\<lparr>conn_remote := w,
                  conn_requests := conn_requests conn @ [GetRequest input]\<rparr>))"

definition conn_DeleteDeploymentConfig ::
  "'w conn \<Rightarrow> DeleteDeploymentConfigInput \<Rightarrow> apiError option \<times> 'w conn" where
  "conn_DeleteDeploymentConfig conn input =
     (let (r, w) = DeleteDeploymentConfig (conn_client conn) input (conn_remote conn)
      in (r, conn\<lparr>conn_remote := w,
                  conn_requests := conn_requests conn @ [DeleteRequest input]\<rparr>))"

subsection \<open>Lookup and the lifecycle callbacks\<close>

definition findDeploymentConfigByName ::
  "'w conn \<Rightarrow> string \<Rightarrow> (error + DeploymentConfigInfo) \<times> 'w conn" where
  "findDeploymentConfigByName conn name =
     (let input = \<lparr>Get_DeploymentConfigName = Some name\<rparr>;
          (r, conn) = conn_GetDeploymentConfig conn input
      in case r of
           Inl err \<Rightarrow>
             if IsA_DeploymentConfigDoesNotExistException err
             then (Inl (NotFoundError err input), conn)
             else (Inl (ClientError err), conn)
         | Inr output \<Rightarrow>
             (case output of
                None \<Rightarrow> (Inl (EmptyResultError input), conn)
              | Some out \<Rightarrow>
                  (case Output_DeploymentConfigInfo out of
                     None \<Rightarrow> (Inl (EmptyResultError input), conn)
                   | Some info \<Rightarrow> (Inr info, conn))))"

definition resourceDeploymentConfigRead ::
  "bool \<Rightarrow> ResourceData \<Rightarrow> 'w conn \<Rightarrow> panic + (Diagnostic list \<times> ResourceData \<times> 'w conn)" where
  "resourceDeploymentConfigRead emptyIsNotFound d conn =
     (let diags = [];
          (res, conn) = findDeploymentConfigByName conn (d_Id d);
          err = (case res of Inl e \<Rightarrow> Some e | Inr _ \<Rightarrow> None)
      in
      if \<not> d_IsNewResource d \<and> NotFound emptyIsNotFound err
      then Inr (diags, d_SetId [] d, conn)
      else
        case res of
          Inl e \<Rightarrow>
            Inr (AppendErrorf diags (''reading CodeDeploy Deployment Config ('' @ d_Id d @ ''): '') e,
                 d, conn)
        | Inr deploymentConfig \<Rightarrow>
            let (_, d) = d_Set ''compute_platform''
                           (VString (Info_ComputePlatform deploymentConfig)) d;
                (_, d) = d_Set ''deployment_config_id''
                           (VStringPtr (Info_DeploymentConfigId deploymentConfig)) d;
                (_, d) = d_Set ''deployment_config_name''
                           (VStringPtr (Info_DeploymentConfigName deploymentConfig)) d
            in
            case d_Set ''minimum_healthy_hosts''
                   (VMaps (flattenMinimumHealthHosts (Info_MinimumHealthyHosts deploymentConfig))) d of
              (Some err, d) \<Rightarrow>
                Inr (AppendErrorf diags ''setting minimum_healthy_hosts: '' err, d, conn)
            | (None, d) \<Rightarrow>
                (case d_Set ''traffic_routing_config''
                        (VMaps (flattenTrafficRoutingConfig
                                  (Info_TrafficRoutingConfig deploymentConfig))) d of
                   (Some err, d) \<Rightarrow>
                     Inr (AppendErrorf diags ''setting traffic_routing_config: '' err, d, conn)
                 | (None, d) \<Rightarrow>
                     bindP (flattenZonalConfig (Info_ZonalConfig deploymentConfig)) (\<lambda>zonal.
                     case d_Set ''zonal_config'' (VMaps zonal) d of
                       (Some err, d) \<Rightarrow>
                         Inr (AppendErrorf diags ''setting zonal_config: '' err, d, conn)
                     | (None, d) \<Rightarrow> Inr (diags, d, conn))))"

definition resourceDeploymentConfigCreate ::
  "bool \<Rightarrow> ResourceData \<Rightarrow> 'w conn \<Rightarrow> panic + (Diagnostic list \<times> ResourceData \<times> 'w conn)" where
  "resourceDeploymentConfigCreate emptyIsNotFound d conn =
     (let diags = [] in
      bindP (asString (d_Get d ''deployment_config_name'')) (\<lambda>name.
      bindP (asString (d_Get d ''compute_platform'')) (\<lambda>platform.
      bindP (expandMinimumHealthyHosts d) (\<lambda>hosts.
      bindP (expandTrafficRoutingConfig d) (\<lambda>traffic.
      bindP (expandZonalConfig d) (\<lambda>zonal.
      let input = \<lparr>Create_ComputePlatform = platform,
                   Create_DeploymentConfigName = Some name,
                   Create_MinimumHealthyHosts = hosts,
                   Create_TrafficRoutingConfig = traffic,
                   Create_ZonalConfig = zonal\<rparr>;
          (err, conn) = conn_CreateDeploymentConfig conn input
      in
      case err of
        Some e \<Rightarrow>
          Inr (AppendErrorf diags (''creating CodeDeploy Deployment Config ('' @ name @ ''): '')
                 (ClientError e),
               d, conn)
      | None \<Rightarrow>
          let d = d_SetId name d in
          bindP (resourceDeploymentConfigRead emptyIsNotFound d conn) (\<lambda>(rdiags, d, conn).
          Inr (diags @ rdiags, d, conn))))))))"

definition resourceDeploymentConfigDelete ::
  "ResourceData \<Rightarrow> 'w conn \<Rightarrow> Diagnostic list \<times> ResourceData \<times> 'w conn" where
  "resourceDeploymentConfigDelete d conn =
     (let diags = [];
          (err, conn) = conn_DeleteDeploymentConfig conn
                          \<lparr>Delete_DeploymentConfigName = Some (d_Id d)\<rparr>
      in
      case err of
        Some e \<Rightarrow>
          (AppendErrorf diags (''deleting CodeDeploy Deployment Config ('' @ d_Id d @ ''): '')
             (ClientError e),
           d, conn)
      | None \<Rightarrow> (diags, d, conn))"

subsection \<open>Configurations that the schema admits\<close>

text \<open>
  The value \<^verbatim>\<open>d.Get\<close> returns for an attribute of a given schema: a string, an
  \<^verbatim>\<open>int\<close>, or for a list of blocks a \<^verbatim>\<open>[]interface{}\<close> of at most \<open>MaxItems\<close>
  elements (a \<open>MaxItems\<close> of \<open>0\<close> is no limit). The element of a block that sets an
  argument is a map with exactly the keys of the block's schema. Every nested attribute
  of this schema is \<open>Optional\<close> and no block has a \<open>MinItems\<close>, so a block with no
  argument, such as \<^verbatim>\<open>minimum_healthy_hosts {}\<close>, is admitted too: its element is
  \<^verbatim>\<open>nil\<close>. Enumeration membership is not required here.
\<close>

fun conforms :: "Schema \<Rightarrow> val \<Rightarrow> bool" where
  "conforms (Schema ty opt req cmpd fnew dflt vd maxItems cw elem) v =
     (case ty of
        TypeString \<Rightarrow> (case v of VString _ \<Rightarrow> True | _ \<Rightarrow> False)
      | TypeInt \<Rightarrow> (case v of VInt _ \<Rightarrow> True | _ \<Rightarrow> False)
      | TypeList \<Rightarrow>
          (case v of
             VList xs \<Rightarrow>
               (maxItems = 0 \<or> length xs \<le> maxItems) \<and>
               list_all (\<lambda>x. case x of
                              VNil \<Rightarrow> True
                            | VMap m \<Rightarrow>
                                dom m = fst ` set elem \<and>
                                list_all (\<lambda>(k, s). case m k of
                                                     Some v' \<Rightarrow> conforms s v'
                                                   | None \<Rightarrow> False) elem
                            | _ \<Rightarrow> False) xs
           | _ \<Rightarrow> False))"

definition validConfig :: "ResourceData \<Rightarrow> bool" where
  "validConfig d =
     list_all (\<lambda>(k, s). Computed s \<or> conforms s (d_Get d k)) resourceDeploymentConfig_Schema"

text \<open>
  No block of the value is the \<^verbatim>\<open>nil\<close> element: every block, at every depth, sets an
  argument and so is a map.
\<close>

fun filled :: "Schema \<Rightarrow> val \<Rightarrow> bool" where
  "filled (Schema ty opt req cmpd fnew dflt vd maxItems cw elem) v =
     (case v of
        VList xs \<Rightarrow>
          list_all (\<lambda>x. case x of
                         VMap m \<Rightarrow>
                           list_all (\<lambda>(k, s). case m k of
                                                Some v' \<Rightarrow> filled s v'
                                              | None \<Rightarrow> True) elem
                       | _ \<Rightarrow> False) xs
      | _ \<Rightarrow> True)"

definition blocksFilled :: "ResourceData \<Rightarrow> bool" where
  "blocksFilled d =
     list_all (\<lambda>(k, s). Computed s \<or> filled s (d_Get d k)) resourceDeploymentConfig_Schema"

text \<open>An \<^verbatim>\<open>int\<close> that \<^verbatim>\<open>int32(i)\<close> leaves unchanged.\<close>

definition fitsInt32 :: "int64 \<Rightarrow> bool" where
  "fitsInt32 i = (- (2 ^ 31) \<le> sint i \<and> sint i < 2 ^ 31)"

definition intFieldFits :: "attrs \<Rightarrow> string \<Rightarrow> bool" where
  "intFieldFits m k = (case m k of Some (VInt i) \<Rightarrow> fitsInt32 i | _ \<Rightarrow> True)"

definition blocksAll :: "(attrs \<Rightarrow> bool) \<Rightarrow> val \<Rightarrow> bool" where
  "blocksAll P v =
     (case v of
        VList xs \<Rightarrow> list_all (\<lambda>x. case x of VMap m \<Rightarrow> P m | _ \<Rightarrow> True) xs
      | _ \<Rightarrow> True)"

text \<open>
  The integer fields that the expand functions convert to \<^verbatim>\<open>int32\<close> all fit into 32
  bits: \<open>value\<close> of both minimum-healthy-hosts blocks, \<open>interval\<close> and \<open>percentage\<close> of
  both traffic-routing sub-blocks. The two durations of the zonal block are \<^verbatim>\<open>int64\<close>
  in the API and are not restricted.
\<close>

definition int32FieldsFit :: "ResourceData \<Rightarrow> bool" where
  "int32FieldsFit d =
     (blocksAll (\<lambda>m. intFieldFits m ''value'') (d_Get d ''minimum_healthy_hosts'')
      \<and> blocksAll (\<lambda>m.
           blocksAll (\<lambda>c. intFieldFits c ''interval'' \<and> intFieldFits c ''percentage'')
             (mapIndex m ''time_based_canary'')
           \<and> blocksAll (\<lambda>c. intFieldFits c ''interval'' \<and> intFieldFits c ''percentage'')
               (mapIndex m ''time_based_linear''))
          (d_Get d ''traffic_routing_config'')
      \<and> blocksAll (\<lambda>m.
           blocksAll (\<lambda>z. intFieldFits z ''value'') (mapIndex m ''minimum_healthy_hosts_per_zone''))
          (d_Get d ''zonal_config''))"

subsection \<open>Validation of \<open>ConflictsWith\<close> by the host\<close>

text \<open>
  Modelled from the spec: the host validates a configuration against the registered
  schema, mutual exclusions included, and calls the create callback only for a
  configuration it accepts. The validator (\<^verbatim>\<open>schemaMap.Validate\<close> of the plugin SDK) is
  not under src. A configuration is the map of the attributes that are set; an
  attribute that is set conflicts when one of the addresses in its \<open>ConflictsWith\<close> is
  set too. An address such as \<^verbatim>\<open>traffic_routing_config.0.time_based_linear\<close> names a
  key, a list index, a key.
\<close>

datatype segment = Key string | Index nat

fun splitOn :: "char \<Rightarrow> string \<Rightarrow> string list" where
  "splitOn c [] = [[]]"
| "splitOn c (x # xs) =
     (if x = c then [] # splitOn c xs
      else (case splitOn c xs of [] \<Rightarrow> [[x]] | w # ws \<Rightarrow> (x # w) # ws))"

definition isDigit :: "char \<Rightarrow> bool" where
  "isDigit c = (c \<in> set ''0123456789'')"

definition natOfDigits :: "string \<Rightarrow> nat" where
  "natOfDigits s = foldl (\<lambda>n c. 10 * n + (of_char c - 48)) 0 s"

definition segmentOf :: "string \<Rightarrow> segment" where
  "segmentOf s = (if s \<noteq> [] \<and> list_all isDigit s then Index (natOfDigits s) else Key s)"

definition parseAddress :: "string \<Rightarrow> segment list" where
  "parseAddress a = map segmentOf (splitOn CHR ''.'' a)"

fun lookupPath :: "val \<Rightarrow> segment list \<Rightarrow> val option" where
  "lookupPath v [] = Some v"
| "lookupPath (VMap m) (Key k # p) = (case m k of None \<Rightarrow> None | Some v \<Rightarrow> lookupPath v p)"
| "lookupPath (VList xs) (Index i # p) = (if i < length xs then lookupPath (xs ! i) p else None)"
| "lookupPath _ (_ # _) = None"

definition isSetAt :: "val \<Rightarrow> segment list \<Rightarrow> bool" where
  "isSetAt c p = (case lookupPath c p of None \<Rightarrow> False | Some v \<Rightarrow> \<not> isZero v)"

datatype validationError = ConflictsWithError "segment list" string

text \<open>
  Modelled from the spec: the check of one attribute's \<open>ConflictsWith\<close>, absent from
  src. It reports the first declared address that is set.
\<close>

definition validateConflictingAttributes ::
  "segment list \<Rightarrow> string list \<Rightarrow> val \<Rightarrow> validationError list" where
  "validateConflictingAttributes path conflictsWith c =
     (case filter (\<lambda>conflictingKey. isSetAt c (parseAddress conflictingKey)) conflictsWith of
        [] \<Rightarrow> []
      | conflictingKey # _ \<Rightarrow> [ConflictsWithError path conflictingKey])"

text \<open>
  Modelled from the spec: the validation of one attribute at an address, absent from
  src. An attribute that is not set is not checked; one that is set is checked for its
  conflicts, and each block of a list for the attributes of the block's schema.
\<close>

fun validateField :: "val \<Rightarrow> segment list \<Rightarrow> Schema \<Rightarrow> validationError list" where
  "validateField c path (Schema ty opt req cmpd fnew dflt vd maxItems cw elem) =
     (case lookupPath c path of
        None \<Rightarrow> []
      | Some v \<Rightarrow>
          if isZero v then []
          else
            validateConflictingAttributes path cw c @
            (case v of
               VList xs \<Rightarrow>
                 concat (map (\<lambda>i. concat (map (\<lambda>(k, s).
                                     validateField c (path @ [Index i, Key k]) s) elem))
                           [0..<length xs])
             | _ \<Rightarrow> []))"

text \<open>
  Modelled from the spec: the validation of a whole configuration against the schema
  map of the resource, absent from src.
\<close>

definition validateResource :: "val \<Rightarrow> validationError list" where
  "validateResource c =
     concat (map (\<lambda>(k, s). validateField c [Key k] s) resourceDeploymentConfig_Schema)"

datatype 'w applied =
    Rejected "validationError list" "'w conn"
  | Called "panic + (Diagnostic list \<times> ResourceData \<times> 'w conn)"

text \<open>
  Modelled from the spec: the host, absent from src, validates the configuration first;
  it calls the create callback, on fresh resource data marked new, only when validation
  reports nothing.
\<close>

definition hostCreate ::
  "bool \<Rightarrow> (string \<Rightarrow> val \<Rightarrow> error option) \<Rightarrow> attrs \<Rightarrow> 'w conn \<Rightarrow> 'w applied" where
  "hostCreate emptyIsNotFound setError config conn =
     (let errs = validateResource (VMap config) in
      if errs \<noteq> [] then Rejected errs conn
      else Called (resourceDeploymentConfigCreate emptyIsNotFound
                     \<lparr>rd_Id = [], rd_IsNewResource = True, rd_values = config,
                      rd_setError = setError\<rparr> conn))"

subsection \<open>An in-memory remote and sample data, for concrete runs\<close>

type_synonym remote = "string \<Rightarrow> DeploymentConfigInfo option"

definition memoryClient :: "remote Client" where
  "memoryClient =
     \<lparr>CreateDeploymentConfig = (\<lambda>input w.
        case Create_DeploymentConfigName input of
          None \<Rightarrow> (Some (OtherAPIError ''DeploymentConfigNameRequiredException''), w)
        | Some n \<Rightarrow>
            (case w n of
               Some _ \<Rightarrow> (Some (OtherAPIError ''DeploymentConfigAlreadyExistsException''), w)
             | None \<Rightarrow>
                 (None, w(n \<mapsto> \<lparr>Info_ComputePlatform = Create_ComputePlatform input,
                                  Info_DeploymentConfigId = Some (''id-'' @ n),
                                  Info_DeploymentConfigName = Some n,
                                  Info_MinimumHealthyHosts = Create_MinimumHealthyHosts input,
                                  Info_TrafficRoutingConfig = Create_TrafficRoutingConfig input,
                                  Info_ZonalConfig = Create_ZonalConfig input\<rparr>)))),
      GetDeploymentConfig = (\<lambda>input w.
        case Get_DeploymentConfigName input of
          None \<Rightarrow> (Inl (OtherAPIError ''DeploymentConfigNameRequiredException''), w)
        | Some n \<Rightarrow>
            (case w n of
               None \<Rightarrow> (Inl (DeploymentConfigDoesNotExistException n), w)
             | Some info \<Rightarrow> (Inr (Some \<lparr>Output_DeploymentConfigInfo = Some info\<rparr>), w))),
      DeleteDeploymentConfig = (\<lambda>input w.
        case Delete_DeploymentConfigName input of
          None \<Rightarrow> (Some (OtherAPIError ''DeploymentConfigNameRequiredException''), w)
        | Some n \<Rightarrow>
            (case w n of
               None \<Rightarrow> (Some (DeploymentConfigDoesNotExistException n), w)
             | Some _ \<Rightarrow> (None, w(n := None))))\<rparr>"

definition emptyConn :: "remote conn" where
  "emptyConn = \<lparr>conn_client = memoryClient, conn_remote = Map.empty, conn_requests = []\<rparr>"

definition sampleInfo :: DeploymentConfigInfo where
  "sampleInfo =
     \<lparr>Info_ComputePlatform = ''Server'',
      Info_DeploymentConfigId = Some ''id-N'',
      Info_DeploymentConfigName = Some ''N'',
      Info_MinimumHealthyHosts =
        Some \<lparr>MinimumHealthyHosts_Type = ''FLEET_PERCENT'', MinimumHealthyHosts_Value = 75\<rparr>,
      Info_TrafficRoutingConfig = None,
      Info_ZonalConfig = None\<rparr>"

definition storedConn :: "remote conn" where
  "storedConn =
     \<lparr>conn_client = memoryClient, conn_remote = [''N'' \<mapsto> sampleInfo], conn_requests = []\<rparr>"

definition sampleValues :: attrs where
  "sampleValues =
     [''compute_platform'' \<mapsto> VString ''Server'',
      ''deployment_config_name'' \<mapsto> VString ''N'',
      ''minimum_healthy_hosts'' \<mapsto>
         VList [VMap [''type'' \<mapsto> VString ''FLEET_PERCENT'', ''value'' \<mapsto> VInt 75]],
      ''traffic_routing_config'' \<mapsto>
         VList [VMap [''type'' \<mapsto> VString ''TimeBasedCanary'',
                      ''time_based_canary'' \<mapsto>
                         VList [VMap [''interval'' \<mapsto> VInt 10, ''percentage'' \<mapsto> VInt 20]],
                      ''time_based_linear'' \<mapsto> VList []]],
      ''zonal_config'' \<mapsto>
         VList [VMap [''first_zone_monitor_duration_in_seconds'' \<mapsto> VInt 60,
                      ''minimum_healthy_hosts_per_zone'' \<mapsto>
                         VList [VMap [''type'' \<mapsto> VString ''HOST_COUNT'',
                                      ''value'' \<mapsto> VInt 1]],
                      ''monitor_duration_in_seconds'' \<mapsto> VInt 30]]]"

definition sampleData :: ResourceData where
  "sampleData =
     \<lparr>rd_Id = [], rd_IsNewResource = True, rd_values = sampleValues,
      rd_setError = (\<lambda>k v. None)\<rparr>"

text \<open>The same configuration with a \<open>value\<close> of \<open>2^32 + 1\<close>, which the schema does not exclude.\<close>

definition wideData :: ResourceData where
  "wideData =
     sampleData\<lparr>rd_values := sampleValues(''minimum_healthy_hosts'' \<mapsto>
        VList [VMap [''type'' \<mapsto> VString ''HOST_COUNT'', ''value'' \<mapsto> VInt 4294967297]])\<rparr>"

text \<open>The same configuration with \<^verbatim>\<open>minimum_healthy_hosts {}\<close>, a block with no argument.\<close>

definition emptyBlockData :: ResourceData where
  "emptyBlockData =
     sampleData\<lparr>rd_values := sampleValues(''minimum_healthy_hosts'' \<mapsto> VList [VNil])\<rparr>"

text \<open>A configuration with both traffic-routing sub-blocks.\<close>

definition bothValues :: attrs where
  "bothValues =
     [''compute_platform'' \<mapsto> VString ''Lambda'',
      ''deployment_config_name'' \<mapsto> VString ''N'',
      ''traffic_routing_config'' \<mapsto>
         VList [VMap [''type'' \<mapsto> VString ''TimeBasedCanary'',
                      ''time_based_canary'' \<mapsto>
                         VList [VMap [''interval'' \<mapsto> VInt 10, ''percentage'' \<mapsto> VInt 20]],
                      ''time_based_linear'' \<mapsto>
                         VList [VMap [''interval'' \<mapsto> VInt 5, ''percentage'' \<mapsto> VInt 25]]]]]"

section \<open>Properties of the flatten functions\<close>

text \<open>
  Claim C9. Flattening the present minimum-healthy-hosts object with type
  \<open>FLEET_PERCENT\<close> and value \<open>75\<close> gives an allocated slice of exactly one map, whose
  entries are \<open>type\<close>, the same string, and \<open>value\<close>, the same \<^verbatim>\<open>int32\<close>, and nothing
  else.
\<close>

theorem flatten_present_minimum_healthy_hosts:
  "flattenMinimumHealthHosts
     (Some \<lparr>MinimumHealthyHosts_Type = ''FLEET_PERCENT'', MinimumHealthyHosts_Value = 75\<rparr>)
   = Some [[''type'' \<mapsto> VString ''FLEET_PERCENT'', ''value'' \<mapsto> VInt32 75]]"
  by (simp add: flattenMinimumHealthHosts_def append_item_def)

text \<open>
  Claim C2. On a \<^verbatim>\<open>nil\<close> API object the flatten functions for minimum healthy hosts,
  the traffic routing configuration and its two sub-blocks return an allocated empty
  slice, while the two functions of the zonal path, \<open>flattenZonalConfig\<close> and
  \<open>flattenMinimumHealthHostsPerZone\<close>, return the \<^verbatim>\<open>nil\<close> slice; none of them fails.
\<close>

theorem flatten_absent:
  "flattenMinimumHealthHosts None = Some []
   \<and> flattenTrafficRoutingConfig None = Some []
   \<and> flattenTimeBasedCanary None = Some []
   \<and> flattenTimeBasedLinear None = Some []
   \<and> flattenZonalConfig None = Inr None
   \<and> flattenMinimumHealthHostsPerZone None = None"
  by (simp add: flattenMinimumHealthHosts_def flattenTrafficRoutingConfig_def
      flattenTimeBasedCanary_def flattenTimeBasedLinear_def flattenZonalConfig_def
      flattenMinimumHealthHostsPerZone_def)

text \<open>
  Claim C10. \<open>flattenZonalConfig\<close> returns a result exactly when its input is \<^verbatim>\<open>nil\<close>
  or has both duration pointers set; on a present input with either pointer \<^verbatim>\<open>nil\<close>
  it panics with a nil dereference. \<open>flattenMinimumHealthHostsPerZone\<close> has no failing
  branch: it returns \<^verbatim>\<open>nil\<close> on \<^verbatim>\<open>nil\<close> and one map on a present input.
\<close>

theorem flattenZonalConfig_total_iff:
  "((\<exists>r. flattenZonalConfig config = Inr r) \<longleftrightarrow>
      (config = None \<or>
       (\<exists>c. config = Some c \<and> FirstZoneMonitorDurationInSeconds c \<noteq> None
            \<and> MonitorDurationInSeconds c \<noteq> None)))
   \<and> ((\<exists>c. config = Some c \<and>
            (FirstZoneMonitorDurationInSeconds c = None \<or> MonitorDurationInSeconds c = None))
        \<longrightarrow> flattenZonalConfig config = Inl NilDereference)
   \<and> flattenMinimumHealthHostsPerZone None = None
   \<and> (\<exists>item. flattenMinimumHealthHostsPerZone (Some z) = Some [item])"
  by (auto simp add: flattenZonalConfig_def flattenMinimumHealthHostsPerZone_def bindP_def
      deref_def append_item_def split: option.splits)

theorem flattenZonalConfig_total_iff_witness:
  "flattenZonalConfig
     (Some \<lparr>FirstZoneMonitorDurationInSeconds = None,
            ZonalConfig_MinimumHealthyHostsPerZone = None,
            MonitorDurationInSeconds = Some 30\<rparr>) = Inl NilDereference
   \<and> (\<exists>r. flattenZonalConfig
            (Some \<lparr>FirstZoneMonitorDurationInSeconds = Some 60,
                   ZonalConfig_MinimumHealthyHostsPerZone = None,
                   MonitorDurationInSeconds = Some 30\<rparr>) = Inr r)"
  using flattenZonalConfig_total_iff
          [of "Some \<lparr>FirstZoneMonitorDurationInSeconds = None,
                      ZonalConfig_MinimumHealthyHostsPerZone = None,
                      MonitorDurationInSeconds = Some 30\<rparr>"]
        flattenZonalConfig_total_iff
          [of "Some \<lparr>FirstZoneMonitorDurationInSeconds = Some 60,
                      ZonalConfig_MinimumHealthyHostsPerZone = None,
                      MonitorDurationInSeconds = Some 30\<rparr>"]
  by simp

section \<open>expand and flatten are inverse to each other\<close>

lemma int32_of_int_scast: "int32_of_int (scast (w :: int32)) = w"
  unfolding int32_of_int_def
  by (simp add: scast_up_scast_id is_up)

lemma scast_int32_of_int:
  assumes "fitsInt32 i"
  shows "scast (int32_of_int i) = i"
proof (rule signed_word_eqI)
  have "sint (scast i :: int32) = signed_take_bit 31 (sint i)"
    by (simp add: signed_scast_eq)
  also have "\<dots> = sint i"
    using assms by (simp add: fitsInt32_def signed_take_bit_int_eq_self)
  finally have a: "sint (scast i :: int32) = sint i" .
  have "sint (scast (scast i :: int32) :: int64) = sint (scast i :: int32)"
    by (simp add: sint_up_scast is_up)
  then show "sint (scast (int32_of_int i) :: int64) = sint i"
    using a by (simp add: int32_of_int_def)
qed

lemma map_dom2:
  assumes "dom m = {a, b}" "m a = Some x" "m b = Some y"
  shows "m = [a \<mapsto> x, b \<mapsto> y]"
proof (rule ext)
  fix k
  show "m k = [a \<mapsto> x, b \<mapsto> y] k"
  proof (cases "k = a \<or> k = b")
    case True
    then show ?thesis using assms by auto
  next
    case False
    then have "k \<notin> dom m" using assms by simp
    then show ?thesis using False by (simp add: domIff)
  qed
qed

lemma map_dom3:
  assumes "dom m = {a, b, c}" "m a = Some x" "m b = Some y" "m c = Some z"
  shows "m = [a \<mapsto> x, b \<mapsto> y, c \<mapsto> z]"
proof (rule ext)
  fix k
  show "m k = [a \<mapsto> x, b \<mapsto> y, c \<mapsto> z] k"
  proof (cases "k = a \<or> k = b \<or> k = c")
    case True
    then show ?thesis using assms by auto
  next
    case False
    then have "k \<notin> dom m" using assms by simp
    then show ?thesis using False by (simp add: domIff)
  qed
qed

lemma conforms_optionalInt: "conforms optionalInt v = (\<exists>i. v = VInt i)"
  by (cases v) (simp_all add: optionalInt_def)

lemma conforms_optionalEnum: "conforms (optionalEnum e) v = (\<exists>s. v = VString s)"
  by (cases v) (simp_all add: optionalEnum_def)

lemma conforms_block:
  "(conforms (Schema TypeList opt req cmpd fnew dflt vd 1 cw elem) v \<and>
    filled (Schema TypeList opt req cmpd fnew dflt vd 1 cw elem) v) =
     (v = VList [] \<or>
      (\<exists>m. v = VList [VMap m] \<and> dom m = fst ` set elem \<and>
           list_all (\<lambda>(k, s). case m k of Some v' \<Rightarrow> conforms s v' | None \<Rightarrow> False) elem \<and>
           list_all (\<lambda>(k, s). case m k of Some v' \<Rightarrow> filled s v' | None \<Rightarrow> True) elem))"
proof (cases v)
  case (VList xs)
  show ?thesis
  proof (cases xs)
    case Nil
    with VList show ?thesis by simp
  next
    case (Cons x ys)
    show ?thesis
    proof (cases ys)
      case Nil
      with VList Cons show ?thesis by (cases x) simp_all
    next
      case (Cons y zs)
      with VList \<open>xs = x # ys\<close> show ?thesis by simp
    qed
  qed
qed simp_all

lemma filled_block_shape:
  assumes "conforms (Schema TypeList opt req cmpd fnew dflt vd 1 cw elem) v"
    and "filled (Schema TypeList opt req cmpd fnew dflt vd 1 cw elem) v"
  shows "v = VList [] \<or>
      (\<exists>m. v = VList [VMap m] \<and> dom m = fst ` set elem \<and>
           list_all (\<lambda>(k, s). case m k of Some v' \<Rightarrow> conforms s v' | None \<Rightarrow> False) elem \<and>
           list_all (\<lambda>(k, s). case m k of Some v' \<Rightarrow> filled s v' | None \<Rightarrow> True) elem)"
  using assms conforms_block [of opt req cmpd fnew dflt vd cw elem v] by blast

lemma conforms_type_value:
  assumes "conforms (Schema TypeList opt req cmpd fnew dflt vd 1 cw
             [(''type'', optionalEnum e), (''value'', optionalInt)]) v"
    and "filled (Schema TypeList opt req cmpd fnew dflt vd 1 cw
             [(''type'', optionalEnum e), (''value'', optionalInt)]) v"
  shows "v = VList [] \<or> (\<exists>t i. v = VList [VMap [''type'' \<mapsto> VString t, ''value'' \<mapsto> VInt i]])"
proof (cases "v = VList []")
  case False
  with filled_block_shape [OF assms]
  obtain m where v: "v = VList [VMap m]" and d: "dom m = {''type'', ''value''}"
    and f: "case m ''type'' of Some v' \<Rightarrow> conforms (optionalEnum e) v' | None \<Rightarrow> False"
           "case m ''value'' of Some v' \<Rightarrow> conforms optionalInt v' | None \<Rightarrow> False"
    by auto
  from f obtain t i where "m ''type'' = Some (VString t)" "m ''value'' = Some (VInt i)"
    by (auto simp add: conforms_optionalInt conforms_optionalEnum split: option.splits)
  with d have "m = [''type'' \<mapsto> VString t, ''value'' \<mapsto> VInt i]"
    by (rule map_dom2)
  with v show ?thesis by blast
qed simp

lemma conforms_interval_percentage:
  assumes "conforms (Schema TypeList opt req cmpd fnew dflt vd 1 cw
             [(''interval'', optionalInt), (''percentage'', optionalInt)]) v"
    and "filled (Schema TypeList opt req cmpd fnew dflt vd 1 cw
             [(''interval'', optionalInt), (''percentage'', optionalInt)]) v"
  shows "v = VList [] \<or>
         (\<exists>i p. v = VList [VMap [''interval'' \<mapsto> VInt i, ''percentage'' \<mapsto> VInt p]])"
proof (cases "v = VList []")
  case False
  with filled_block_shape [OF assms]
  obtain m where v: "v = VList [VMap m]" and d: "dom m = {''interval'', ''percentage''}"
    and f: "case m ''interval'' of Some v' \<Rightarrow> conforms optionalInt v' | None \<Rightarrow> False"
           "case m ''percentage'' of Some v' \<Rightarrow> conforms optionalInt v' | None \<Rightarrow> False"
    by auto
  from f obtain i p where "m ''interval'' = Some (VInt i)" "m ''percentage'' = Some (VInt p)"
    by (auto simp add: conforms_optionalInt split: option.splits)
  with d have "m = [''interval'' \<mapsto> VInt i, ''percentage'' \<mapsto> VInt p]"
    by (rule map_dom2)
  with v show ?thesis by blast
qed simp

lemma map_option_comp_upd:
  "map_option f \<circ> (m(k \<mapsto> v)) = (map_option f \<circ> m)(k \<mapsto> f v)"
  by (rule ext) simp

lemma map_option_comp_empty: "map_option f \<circ> Map.empty = Map.empty"
  by (rule ext) simp

lemmas toState_maps = map_option_comp_upd map_option_comp_empty

lemma d_Get_after_Set:
  "d_Set k v d = (None, d') \<Longrightarrow> d_Get d' k = toState v"
  by (auto simp add: d_Set_def d_Get_def split: option.splits)

lemma roundtrip_config_mhh:
  assumes c: "conforms minimum_healthy_hosts_schema (d_Get d ''minimum_healthy_hosts'')"
    and fl: "filled minimum_healthy_hosts_schema (d_Get d ''minimum_healthy_hosts'')"
    and r: "blocksAll (\<lambda>m. intFieldFits m ''value'') (d_Get d ''minimum_healthy_hosts'')"
  shows "\<exists>a. expandMinimumHealthyHosts d = Inr a \<and>
             toState (VMaps (flattenMinimumHealthHosts a)) = d_Get d ''minimum_healthy_hosts''"
proof -
  from c consider "d_Get d ''minimum_healthy_hosts'' = VList []"
    | t i where "d_Get d ''minimum_healthy_hosts'' =
                   VList [VMap [''type'' \<mapsto> VString t, ''value'' \<mapsto> VInt i]]"
    using conforms_type_value [OF c [unfolded minimum_healthy_hosts_schema_def]
        fl [unfolded minimum_healthy_hosts_schema_def]] by blast
  then show ?thesis
  proof cases
    case 1
    then show ?thesis
      by (simp add: expandMinimumHealthyHosts_def d_GetOk_def flattenMinimumHealthHosts_def)
  next
    case 2
    with r have "fitsInt32 i"
      by (simp add: blocksAll_def intFieldFits_def)
    then have "scast (int32_of_int i) = i" by (rule scast_int32_of_int)
    with 2 show ?thesis
      by (simp add: expandMinimumHealthyHosts_def d_GetOk_def flattenMinimumHealthHosts_def
          bindP_def asList_def index0_def asMap_def asString_def asInt_def mapIndex_def
          append_item_def toState_maps)
  qed
qed

lemma roundtrip_api_mhh:
  assumes "d_Set ''minimum_healthy_hosts'' (VMaps (flattenMinimumHealthHosts a)) d = (None, d')"
  shows "expandMinimumHealthyHosts d' = Inr a"
proof -
  from assms have g: "d_Get d' ''minimum_healthy_hosts'' = toState (VMaps (flattenMinimumHealthHosts a))"
    by (rule d_Get_after_Set)
  show ?thesis
  proof (cases a)
    case None
    with g show ?thesis
      by (simp add: expandMinimumHealthyHosts_def d_GetOk_def flattenMinimumHealthHosts_def)
  next
    case (Some h)
    with g show ?thesis
      by (simp add: expandMinimumHealthyHosts_def d_GetOk_def flattenMinimumHealthHosts_def
          bindP_def asList_def index0_def asMap_def asString_def asInt_def mapIndex_def
          append_item_def toState_maps int32_of_int_scast)
  qed
qed

lemma expandTimeBasedCanary_ints:
  "expandTimeBasedCanary [''interval'' \<mapsto> VInt i, ''percentage'' \<mapsto> VInt p] =
     Inr \<lparr>CanaryInterval = int32_of_int i, CanaryPercentage = int32_of_int p\<rparr>"
  by (simp add: expandTimeBasedCanary_def mapIndexOk_def bindP_def asInt_def)

lemma expandTimeBasedLinear_ints:
  "expandTimeBasedLinear [''interval'' \<mapsto> VInt i, ''percentage'' \<mapsto> VInt p] =
     Inr \<lparr>LinearInterval = int32_of_int i, LinearPercentage = int32_of_int p\<rparr>"
  by (simp add: expandTimeBasedLinear_def mapIndexOk_def bindP_def asInt_def)

lemma toState_flattenTimeBasedCanary:
  "toState (VMaps (flattenTimeBasedCanary c)) =
     (case c of
        None \<Rightarrow> VList []
      | Some x \<Rightarrow> VList [VMap [''interval'' \<mapsto> VInt (scast (CanaryInterval x)),
                              ''percentage'' \<mapsto> VInt (scast (CanaryPercentage x))]])"
  by (cases c) (simp_all add: flattenTimeBasedCanary_def append_item_def toState_maps)

lemma toState_flattenTimeBasedLinear:
  "toState (VMaps (flattenTimeBasedLinear c)) =
     (case c of
        None \<Rightarrow> VList []
      | Some x \<Rightarrow> VList [VMap [''interval'' \<mapsto> VInt (scast (LinearInterval x)),
                              ''percentage'' \<mapsto> VInt (scast (LinearPercentage x))]])"
  by (cases c) (simp_all add: flattenTimeBasedLinear_def append_item_def toState_maps)

lemma toState_flattenMinimumHealthHostsPerZone:
  "toState (VMaps (flattenMinimumHealthHostsPerZone c)) =
     (case c of
        None \<Rightarrow> VList []
      | Some x \<Rightarrow> VList [VMap [''type'' \<mapsto> VString (MinimumHealthyHostsPerZone_Type x),
                              ''value'' \<mapsto> VInt (scast (MinimumHealthyHostsPerZone_Value x))]])"
  by (cases c) (simp_all add: flattenMinimumHealthHostsPerZone_def append_item_def toState_maps)

lemma toState_flattenTrafficRoutingConfig:
  "toState (VMaps (flattenTrafficRoutingConfig c)) =
     (case c of
        None \<Rightarrow> VList []
      | Some x \<Rightarrow>
          VList [VMap [''type'' \<mapsto> VString (TrafficRoutingConfig_Type x),
                       ''time_based_canary'' \<mapsto>
                          toState (VMaps (flattenTimeBasedCanary
                                            (TrafficRoutingConfig_TimeBasedCanary x))),
                       ''time_based_linear'' \<mapsto>
                          toState (VMaps (flattenTimeBasedLinear
                                            (TrafficRoutingConfig_TimeBasedLinear x)))]])"
  by (cases c) (simp_all add: flattenTrafficRoutingConfig_def append_item_def toState_maps)

lemma conforms_traffic_routing_config:
  assumes "conforms traffic_routing_config_schema v"
    and "filled traffic_routing_config_schema v"
  shows "v = VList [] \<or>
         (\<exists>t cv lv. v = VList [VMap [''type'' \<mapsto> VString t, ''time_based_canary'' \<mapsto> cv,
                                     ''time_based_linear'' \<mapsto> lv]]
                    \<and> conforms time_based_canary_schema cv \<and> filled time_based_canary_schema cv
                    \<and> conforms time_based_linear_schema lv \<and> filled time_based_linear_schema lv)"
proof (cases "v = VList []")
  case False
  with filled_block_shape [OF assms [unfolded traffic_routing_config_schema_def]]
  obtain m where v: "v = VList [VMap m]"
    and d: "dom m = {''time_based_canary'', ''time_based_linear'', ''type''}"
    and f: "case m ''time_based_canary'' of Some v' \<Rightarrow> conforms time_based_canary_schema v'
            | None \<Rightarrow> False"
           "case m ''time_based_linear'' of Some v' \<Rightarrow> conforms time_based_linear_schema v'
            | None \<Rightarrow> False"
           "case m ''type'' of Some v' \<Rightarrow> conforms (optionalEnum TrafficRoutingType) v'
            | None \<Rightarrow> False"
    and g: "case m ''time_based_canary'' of Some v' \<Rightarrow> filled time_based_canary_schema v'
            | None \<Rightarrow> True"
           "case m ''time_based_linear'' of Some v' \<Rightarrow> filled time_based_linear_schema v'
            | None \<Rightarrow> True"
    by auto
  from f g obtain t cv lv where m: "m ''type'' = Some (VString t)"
      "m ''time_based_canary'' = Some cv" "m ''time_based_linear'' = Some lv"
    and c: "conforms time_based_canary_schema cv" "conforms time_based_linear_schema lv"
      "filled time_based_canary_schema cv" "filled time_based_linear_schema lv"
    by (auto simp add: conforms_optionalEnum split: option.splits)
  from d have "dom m = {''type'', ''time_based_canary'', ''time_based_linear''}" by auto
  with m have "m = [''type'' \<mapsto> VString t, ''time_based_canary'' \<mapsto> cv,
                    ''time_based_linear'' \<mapsto> lv]"
    by (intro map_dom3)
  with v c show ?thesis by blast
qed simp

lemma roundtrip_config_trc:
  assumes c: "conforms traffic_routing_config_schema (d_Get d ''traffic_routing_config'')"
    and fl: "filled traffic_routing_config_schema (d_Get d ''traffic_routing_config'')"
    and r: "blocksAll (\<lambda>m.
              blocksAll (\<lambda>c. intFieldFits c ''interval'' \<and> intFieldFits c ''percentage'')
                (mapIndex m ''time_based_canary'')
              \<and> blocksAll (\<lambda>c. intFieldFits c ''interval'' \<and> intFieldFits c ''percentage'')
                  (mapIndex m ''time_based_linear''))
             (d_Get d ''traffic_routing_config'')"
  shows "\<exists>a. expandTrafficRoutingConfig d = Inr a \<and>
             toState (VMaps (flattenTrafficRoutingConfig a)) = d_Get d ''traffic_routing_config''"
proof -
  from conforms_traffic_routing_config [OF c fl]
  consider "d_Get d ''traffic_routing_config'' = VList []"
    | t cv lv where "d_Get d ''traffic_routing_config'' =
                       VList [VMap [''type'' \<mapsto> VString t, ''time_based_canary'' \<mapsto> cv,
                                    ''time_based_linear'' \<mapsto> lv]]"
        "conforms time_based_canary_schema cv" "conforms time_based_linear_schema lv"
        "filled time_based_canary_schema cv" "filled time_based_linear_schema lv"
    by blast
  then show ?thesis
  proof cases
    case 1
    then show ?thesis
      by (simp add: expandTrafficRoutingConfig_def d_GetOk_def flattenTrafficRoutingConfig_def)
  next
    case 2
    from r 2(1) have rc: "blocksAll (\<lambda>c. intFieldFits c ''interval'' \<and> intFieldFits c ''percentage'') cv"
      and rl: "blocksAll (\<lambda>c. intFieldFits c ''interval'' \<and> intFieldFits c ''percentage'') lv"
      by (simp_all add: blocksAll_def mapIndex_def)
    have cv: "\<exists>x. (if 0 < (case cv of VList xs \<Rightarrow> length xs | _ \<Rightarrow> 0)
                   then bindP (bindP (bindP (asList cv) index0) asMap) (\<lambda>m.
                        bindP (expandTimeBasedCanary m) (\<lambda>c. Inr (Some c)))
                   else Inr None) = Inr x
                \<and> toState (VMaps (flattenTimeBasedCanary x)) = cv \<and> (\<exists>xs. cv = VList xs)"
    proof -
      from conforms_interval_percentage [OF 2(2) [unfolded time_based_canary_schema_def]
          2(4) [unfolded time_based_canary_schema_def]]
      consider "cv = VList []"
        | i p where "cv = VList [VMap [''interval'' \<mapsto> VInt i, ''percentage'' \<mapsto> VInt p]]"
        by blast
      then show ?thesis
      proof cases
        case 1
        then show ?thesis by (simp add: toState_flattenTimeBasedCanary del: toState.simps)
      next
        case 2
        with rc have "fitsInt32 i" "fitsInt32 p"
          by (simp_all add: blocksAll_def intFieldFits_def)
        then have "scast (int32_of_int i) = i" "scast (int32_of_int p) = p"
          by (simp_all add: scast_int32_of_int)
        with 2 show ?thesis
          by (simp add: toState_flattenTimeBasedCanary expandTimeBasedCanary_ints bindP_def
              asList_def index0_def asMap_def del: toState.simps)
      qed
    qed
    have lv: "\<exists>x. (if 0 < (case lv of VList xs \<Rightarrow> length xs | _ \<Rightarrow> 0)
                   then bindP (bindP (bindP (asList lv) index0) asMap) (\<lambda>m.
                        bindP (expandTimeBasedLinear m) (\<lambda>c. Inr (Some c)))
                   else Inr None) = Inr x
                \<and> toState (VMaps (flattenTimeBasedLinear x)) = lv \<and> (\<exists>xs. lv = VList xs)"
    proof -
      from conforms_interval_percentage [OF 2(3) [unfolded time_based_linear_schema_def]
          2(5) [unfolded time_based_linear_schema_def]]
      consider "lv = VList []"
        | i p where "lv = VList [VMap [''interval'' \<mapsto> VInt i, ''percentage'' \<mapsto> VInt p]]"
        by blast
      then show ?thesis
      proof cases
        case 1
        then show ?thesis by (simp add: toState_flattenTimeBasedLinear del: toState.simps)
      next
        case 2
        with rl have "fitsInt32 i" "fitsInt32 p"
          by (simp_all add: blocksAll_def intFieldFits_def)
        then have "scast (int32_of_int i) = i" "scast (int32_of_int p) = p"
          by (simp_all add: scast_int32_of_int)
        with 2 show ?thesis
          by (simp add: toState_flattenTimeBasedLinear expandTimeBasedLinear_ints bindP_def
              asList_def index0_def asMap_def del: toState.simps)
      qed
    qed
    from cv lv 2(1) show ?thesis
      by (auto simp add: expandTrafficRoutingConfig_def d_GetOk_def bindP_def asList_def
          index0_def asMap_def asString_def mapIndexOk_def toState_flattenTrafficRoutingConfig
          simp del: toState.simps split: if_splits sum.splits)
  qed
qed

lemma roundtrip_api_trc:
  assumes "d_Set ''traffic_routing_config'' (VMaps (flattenTrafficRoutingConfig a)) d = (None, d')"
  shows "expandTrafficRoutingConfig d' = Inr a"
proof -
  from assms have g: "d_Get d' ''traffic_routing_config'' =
      toState (VMaps (flattenTrafficRoutingConfig a))"
    by (rule d_Get_after_Set)
  show ?thesis
  proof (cases a)
    case None
    with g show ?thesis
      by (simp add: expandTrafficRoutingConfig_def d_GetOk_def flattenTrafficRoutingConfig_def)
  next
    case (Some x)
    have "expandTrafficRoutingConfig d' =
            Inr (Some \<lparr>TrafficRoutingConfig_Type = TrafficRoutingConfig_Type x,
                       TrafficRoutingConfig_TimeBasedCanary = TrafficRoutingConfig_TimeBasedCanary x,
                       TrafficRoutingConfig_TimeBasedLinear = TrafficRoutingConfig_TimeBasedLinear x\<rparr>)"
      using g Some
      by (cases "TrafficRoutingConfig_TimeBasedCanary x";
          cases "TrafficRoutingConfig_TimeBasedLinear x")
        (simp_all add: expandTrafficRoutingConfig_def d_GetOk_def bindP_def asList_def
          index0_def asMap_def asString_def mapIndexOk_def toState_flattenTrafficRoutingConfig
          toState_flattenTimeBasedCanary toState_flattenTimeBasedLinear
          expandTimeBasedCanary_ints expandTimeBasedLinear_ints int32_of_int_scast
          del: toState.simps)
    with Some show ?thesis by simp
  qed
qed

lemma conforms_zonal_config:
  assumes "conforms zonal_config_schema v"
    and "filled zonal_config_schema v"
  shows "v = VList [] \<or>
         (\<exists>f mv mo. v = VList [VMap [''first_zone_monitor_duration_in_seconds'' \<mapsto> VInt f,
                                     ''minimum_healthy_hosts_per_zone'' \<mapsto> mv,
                                     ''monitor_duration_in_seconds'' \<mapsto> VInt mo]]
                    \<and> conforms minimum_healthy_hosts_per_zone_schema mv
                    \<and> filled minimum_healthy_hosts_per_zone_schema mv)"
proof (cases "v = VList []")
  case False
  with filled_block_shape [OF assms [unfolded zonal_config_schema_def]]
  obtain m where v: "v = VList [VMap m]"
    and d: "dom m = {''first_zone_monitor_duration_in_seconds'',
                     ''minimum_healthy_hosts_per_zone'', ''monitor_duration_in_seconds''}"
    and f: "case m ''first_zone_monitor_duration_in_seconds'' of
              Some v' \<Rightarrow> conforms optionalInt v' | None \<Rightarrow> False"
           "case m ''minimum_healthy_hosts_per_zone'' of
              Some v' \<Rightarrow> conforms minimum_healthy_hosts_per_zone_schema v' | None \<Rightarrow> False"
           "case m ''monitor_duration_in_seconds'' of
              Some v' \<Rightarrow> conforms optionalInt v' | None \<Rightarrow> False"
    and g: "case m ''minimum_healthy_hosts_per_zone'' of
              Some v' \<Rightarrow> filled minimum_healthy_hosts_per_zone_schema v' | None \<Rightarrow> True"
    by auto
  from f g obtain fz mv mo where m: "m ''first_zone_monitor_duration_in_seconds'' = Some (VInt fz)"
      "m ''minimum_healthy_hosts_per_zone'' = Some mv"
      "m ''monitor_duration_in_seconds'' = Some (VInt mo)"
    and c: "conforms minimum_healthy_hosts_per_zone_schema mv"
      "filled minimum_healthy_hosts_per_zone_schema mv"
    by (auto simp add: conforms_optionalInt split: option.splits)
  from d m have "m = [''first_zone_monitor_duration_in_seconds'' \<mapsto> VInt fz,
                      ''minimum_healthy_hosts_per_zone'' \<mapsto> mv,
                      ''monitor_duration_in_seconds'' \<mapsto> VInt mo]"
    by (intro map_dom3)
  with v c show ?thesis by blast
qed simp

lemma flattenZonalConfig_Some:
  "flattenZonalConfig (Some \<lparr>FirstZoneMonitorDurationInSeconds = Some f,
                             ZonalConfig_MinimumHealthyHostsPerZone = z,
                             MonitorDurationInSeconds = Some mo\<rparr>) =
     Inr (Some [[''first_zone_monitor_duration_in_seconds'' \<mapsto> VInt64Ptr (Some f),
                 ''minimum_healthy_hosts_per_zone'' \<mapsto>
                    VMaps (flattenMinimumHealthHostsPerZone z),
                 ''monitor_duration_in_seconds'' \<mapsto> VInt64Ptr (Some mo)]])"
  by (simp add: flattenZonalConfig_def bindP_def deref_def append_item_def)

lemma toState_zonal_item:
  "toState (VMaps (Some [[''first_zone_monitor_duration_in_seconds'' \<mapsto> VInt64Ptr (Some f),
                           ''minimum_healthy_hosts_per_zone'' \<mapsto> VMaps z,
                           ''monitor_duration_in_seconds'' \<mapsto> VInt64Ptr (Some mo)]])) =
     VList [VMap [''first_zone_monitor_duration_in_seconds'' \<mapsto> VInt f,
                  ''minimum_healthy_hosts_per_zone'' \<mapsto> toState (VMaps z),
                  ''monitor_duration_in_seconds'' \<mapsto> VInt mo]]"
  by (simp add: toState_maps)

lemma expandMinimumHealthyHostsPerZone_vals:
  "expandMinimumHealthyHostsPerZone [''type'' \<mapsto> VString t, ''value'' \<mapsto> VInt i] =
     Inr \<lparr>MinimumHealthyHostsPerZone_Type = t,
          MinimumHealthyHostsPerZone_Value = int32_of_int i\<rparr>"
  by (simp add: expandMinimumHealthyHostsPerZone_def bindP_def asString_def asInt_def
      mapIndex_def)

lemma roundtrip_config_zonal:
  assumes c: "conforms zonal_config_schema (d_Get d ''zonal_config'')"
    and fl: "filled zonal_config_schema (d_Get d ''zonal_config'')"
    and r: "blocksAll (\<lambda>m. blocksAll (\<lambda>z. intFieldFits z ''value'')
                             (mapIndex m ''minimum_healthy_hosts_per_zone''))
             (d_Get d ''zonal_config'')"
  shows "\<exists>a z. expandZonalConfig d = Inr a \<and> flattenZonalConfig a = Inr z \<and>
               toState (VMaps z) = d_Get d ''zonal_config''"
proof -
  from conforms_zonal_config [OF c fl]
  consider "d_Get d ''zonal_config'' = VList []"
    | f mv mo where "d_Get d ''zonal_config'' =
                       VList [VMap [''first_zone_monitor_duration_in_seconds'' \<mapsto> VInt f,
                                    ''minimum_healthy_hosts_per_zone'' \<mapsto> mv,
                                    ''monitor_duration_in_seconds'' \<mapsto> VInt mo]]"
        "conforms minimum_healthy_hosts_per_zone_schema mv"
        "filled minimum_healthy_hosts_per_zone_schema mv"
    by blast
  then show ?thesis
  proof cases
    case 1
    then show ?thesis
      by (simp add: expandZonalConfig_def d_GetOk_def flattenZonalConfig_def)
  next
    case 2
    from r 2(1) have rz: "blocksAll (\<lambda>z. intFieldFits z ''value'') mv"
      by (simp add: blocksAll_def mapIndex_def)
    from conforms_type_value [OF 2(2) [unfolded minimum_healthy_hosts_per_zone_schema_def]
        2(3) [unfolded minimum_healthy_hosts_per_zone_schema_def]]
    consider "mv = VList []"
      | t i where "mv = VList [VMap [''type'' \<mapsto> VString t, ''value'' \<mapsto> VInt i]]"
      by blast
    then show ?thesis
    proof cases
      case 1
      with 2(1) show ?thesis
        by (simp add: expandZonalConfig_def d_GetOk_def bindP_def asList_def index0_def
            asMap_def asIntOk_def mapIndex_def mapIndexOk_def flattenZonalConfig_Some
            toState_zonal_item toState_flattenMinimumHealthHostsPerZone del: toState.simps)
    next
      case mv: 2
      with rz have "fitsInt32 i" by (simp add: blocksAll_def intFieldFits_def)
      then have "scast (int32_of_int i) = i" by (rule scast_int32_of_int)
      with 2(1) mv show ?thesis
        by (simp add: expandZonalConfig_def d_GetOk_def bindP_def asList_def index0_def
            asMap_def asIntOk_def mapIndex_def mapIndexOk_def flattenZonalConfig_Some
            toState_zonal_item toState_flattenMinimumHealthHostsPerZone
            expandMinimumHealthyHostsPerZone_vals del: toState.simps)
    qed
  qed
qed

lemma roundtrip_api_zonal:
  assumes f: "flattenZonalConfig a = Inr z"
    and s: "d_Set ''zonal_config'' (VMaps z) d = (None, d')"
  shows "expandZonalConfig d' = Inr a"
proof -
  from s have g: "d_Get d' ''zonal_config'' = toState (VMaps z)"
    by (rule d_Get_after_Set)
  show ?thesis
  proof (cases a)
    case None
    with f g show ?thesis
      by (auto simp add: expandZonalConfig_def d_GetOk_def flattenZonalConfig_def)
  next
    case (Some x)
    with f obtain fz mo where p: "FirstZoneMonitorDurationInSeconds x = Some fz"
        "MonitorDurationInSeconds x = Some mo"
      by (auto simp add: flattenZonalConfig_def bindP_def deref_def split: option.splits)
    then have x: "x = \<lparr>FirstZoneMonitorDurationInSeconds = Some fz,
                        ZonalConfig_MinimumHealthyHostsPerZone =
                          ZonalConfig_MinimumHealthyHostsPerZone x,
                        MonitorDurationInSeconds = Some mo\<rparr>"
      by simp
    from f Some have z: "z = Some [[''first_zone_monitor_duration_in_seconds'' \<mapsto> VInt64Ptr (Some fz),
                 ''minimum_healthy_hosts_per_zone'' \<mapsto>
                    VMaps (flattenMinimumHealthHostsPerZone (ZonalConfig_MinimumHealthyHostsPerZone x)),
                 ''monitor_duration_in_seconds'' \<mapsto> VInt64Ptr (Some mo)]]"
      by (subst (asm) x) (simp add: flattenZonalConfig_Some)
    have "expandZonalConfig d' =
            Inr (Some \<lparr>FirstZoneMonitorDurationInSeconds = Some fz,
                        ZonalConfig_MinimumHealthyHostsPerZone =
                          ZonalConfig_MinimumHealthyHostsPerZone x,
                        MonitorDurationInSeconds = Some mo\<rparr>)"
      using g z
      by (cases "ZonalConfig_MinimumHealthyHostsPerZone x")
        (simp_all add: expandZonalConfig_def d_GetOk_def bindP_def asList_def index0_def
          asMap_def asIntOk_def mapIndex_def mapIndexOk_def toState_zonal_item
          toState_flattenMinimumHealthHostsPerZone expandMinimumHealthyHostsPerZone_vals
          int32_of_int_scast del: toState.simps)
    with x Some show ?thesis by simp
  qed
qed

lemma sample_valid: "validConfig sampleData"
  by (auto simp add: validConfig_def resourceDeploymentConfig_Schema_def
      compute_platform_schema_def deployment_config_id_schema_def
      deployment_config_name_schema_def minimum_healthy_hosts_schema_def
      traffic_routing_config_schema_def time_based_canary_schema_def
      time_based_linear_schema_def zonal_config_schema_def
      minimum_healthy_hosts_per_zone_schema_def optionalInt_def optionalEnum_def
      d_Get_def sampleData_def sampleValues_def)

lemma sample_filled: "blocksFilled sampleData"
  by (auto simp add: blocksFilled_def resourceDeploymentConfig_Schema_def
      compute_platform_schema_def deployment_config_id_schema_def
      deployment_config_name_schema_def minimum_healthy_hosts_schema_def
      traffic_routing_config_schema_def time_based_canary_schema_def
      time_based_linear_schema_def zonal_config_schema_def
      minimum_healthy_hosts_per_zone_schema_def optionalInt_def optionalEnum_def
      d_Get_def sampleData_def sampleValues_def)

lemma fitsInt32_small: "fitsInt32 75" "fitsInt32 10" "fitsInt32 20" "fitsInt32 1"
  by (simp_all add: fitsInt32_def)

lemma sample_fits: "int32FieldsFit sampleData"
  by (simp add: int32FieldsFit_def blocksAll_def intFieldFits_def mapIndex_def d_Get_def
      sampleData_def sampleValues_def fitsInt32_small)

lemma d_Set_accepted:
  "rd_setError d k v = None \<Longrightarrow> d_Set k v d = (None, snd (d_Set k v d))"
  by (simp add: d_Set_def)

text \<open>
  Claim C1, as amended. Take a configuration that the schema admits, in which every
  block that is present sets an argument, at every depth (so that \<^verbatim>\<open>d.Get\<close> returns a
  map for it and not the \<^verbatim>\<open>nil\<close> element of a block with no argument), and whose
  integer fields bound for an \<^verbatim>\<open>int32\<close> fit into 32 bits. Then each of the three expand
  functions returns without a panic, and flattening its result and storing it gives back
  the block of the configuration, field for field, sub-blocks included; for the zonal
  block \<open>flattenZonalConfig\<close> does not panic on what \<open>expandZonalConfig\<close> built, and an
  absent zonal block, flattened to \<^verbatim>\<open>nil\<close>, is stored as the empty list like the
  others. In the other direction, for every API object, storing the flattened object and
  expanding the stored block gives back the object; for the zonal object this holds
  whenever \<open>flattenZonalConfig\<close> returns, that is when the object is absent or has both
  durations set.
\<close>

theorem expand_flatten_roundtrip:
  "(validConfig d \<and> blocksFilled d \<and> int32FieldsFit d \<longrightarrow>
      (\<exists>a. expandMinimumHealthyHosts d = Inr a \<and>
           toState (VMaps (flattenMinimumHealthHosts a)) = d_Get d ''minimum_healthy_hosts'')
    \<and> (\<exists>a. expandTrafficRoutingConfig d = Inr a \<and>
           toState (VMaps (flattenTrafficRoutingConfig a)) = d_Get d ''traffic_routing_config'')
    \<and> (\<exists>a z. expandZonalConfig d = Inr a \<and> flattenZonalConfig a = Inr z \<and>
           toState (VMaps z) = d_Get d ''zonal_config''))
   \<and> (d_Set ''minimum_healthy_hosts'' (VMaps (flattenMinimumHealthHosts hosts)) d = (None, d1)
        \<longrightarrow> expandMinimumHealthyHosts d1 = Inr hosts)
   \<and> (d_Set ''traffic_routing_config'' (VMaps (flattenTrafficRoutingConfig traffic)) d = (None, d2)
        \<longrightarrow> expandTrafficRoutingConfig d2 = Inr traffic)
   \<and> (flattenZonalConfig zonal = Inr z \<and> d_Set ''zonal_config'' (VMaps z) d = (None, d3)
        \<longrightarrow> expandZonalConfig d3 = Inr zonal)"
proof -
  have a: "validConfig d \<Longrightarrow>
      conforms minimum_healthy_hosts_schema (d_Get d ''minimum_healthy_hosts'') \<and>
      conforms traffic_routing_config_schema (d_Get d ''traffic_routing_config'') \<and>
      conforms zonal_config_schema (d_Get d ''zonal_config'')"
    by (simp add: validConfig_def resourceDeploymentConfig_Schema_def
        minimum_healthy_hosts_schema_def traffic_routing_config_schema_def
        zonal_config_schema_def)
  have b: "blocksFilled d \<Longrightarrow>
      filled minimum_healthy_hosts_schema (d_Get d ''minimum_healthy_hosts'') \<and>
      filled traffic_routing_config_schema (d_Get d ''traffic_routing_config'') \<and>
      filled zonal_config_schema (d_Get d ''zonal_config'')"
    by (simp add: blocksFilled_def resourceDeploymentConfig_Schema_def
        minimum_healthy_hosts_schema_def traffic_routing_config_schema_def
        zonal_config_schema_def)
  show ?thesis
    using a b roundtrip_config_mhh [of d] roundtrip_config_trc [of d] roundtrip_config_zonal [of d]
      roundtrip_api_mhh [of hosts d d1] roundtrip_api_trc [of traffic d d2]
      roundtrip_api_zonal [of zonal z d d3]
    unfolding int32FieldsFit_def by blast
qed

text \<open>
  The claim as stated fails. The configuration \<open>wideData\<close> is admitted by the schema
  and all its blocks set their arguments, its minimum-healthy-hosts \<open>value\<close> being
  \<open>2^32 + 1\<close>; \<^verbatim>\<open>int32(...)\<close> keeps the low 32 bits, so expand gives the value \<open>1\<close> and
  flatten of that differs from the configuration. The configuration \<open>emptyBlockData\<close>
  is admitted by the schema too, with \<^verbatim>\<open>minimum_healthy_hosts {}\<close>: there the assertion
  \<^verbatim>\<open>hosts.([]interface{})[0].(map[string]interface{})\<close> panics on the \<^verbatim>\<open>nil\<close> element.
  And a present zonal object with a \<^verbatim>\<open>nil\<close> duration cannot be flattened at all.
\<close>

theorem expand_flatten_roundtrip_counterexample:
  "validConfig wideData \<and> blocksFilled wideData
   \<and> d_Get wideData ''minimum_healthy_hosts'' =
       VList [VMap [''type'' \<mapsto> VString ''HOST_COUNT'', ''value'' \<mapsto> VInt 4294967297]]
   \<and> expandMinimumHealthyHosts wideData =
       Inr (Some \<lparr>MinimumHealthyHosts_Type = ''HOST_COUNT'', MinimumHealthyHosts_Value = 1\<rparr>)
   \<and> toState (VMaps (flattenMinimumHealthHosts
        (Some \<lparr>MinimumHealthyHosts_Type = ''HOST_COUNT'', MinimumHealthyHosts_Value = 1\<rparr>))) =
       VList [VMap [''type'' \<mapsto> VString ''HOST_COUNT'', ''value'' \<mapsto> VInt 1]]
   \<and> toState (VMaps (flattenMinimumHealthHosts
        (Some \<lparr>MinimumHealthyHosts_Type = ''HOST_COUNT'', MinimumHealthyHosts_Value = 1\<rparr>))) \<noteq>
       d_Get wideData ''minimum_healthy_hosts''
   \<and> flattenZonalConfig
        (Some \<lparr>FirstZoneMonitorDurationInSeconds = None,
               ZonalConfig_MinimumHealthyHostsPerZone = None,
               MonitorDurationInSeconds = Some 30\<rparr>) = Inl NilDereference
   \<and> validConfig emptyBlockData
   \<and> d_Get emptyBlockData ''minimum_healthy_hosts'' = VList [VNil]
   \<and> expandMinimumHealthyHosts emptyBlockData = Inl InterfaceConversion"
proof -
  have w: "blocksFilled wideData"
    by (auto simp add: blocksFilled_def resourceDeploymentConfig_Schema_def
      compute_platform_schema_def deployment_config_id_schema_def
      deployment_config_name_schema_def minimum_healthy_hosts_schema_def
      traffic_routing_config_schema_def time_based_canary_schema_def
      time_based_linear_schema_def zonal_config_schema_def
      minimum_healthy_hosts_per_zone_schema_def optionalInt_def optionalEnum_def
      d_Get_def wideData_def sampleData_def sampleValues_def)
  have ev: "validConfig emptyBlockData"
    by (auto simp add: validConfig_def resourceDeploymentConfig_Schema_def
      compute_platform_schema_def deployment_config_id_schema_def
      deployment_config_name_schema_def minimum_healthy_hosts_schema_def
      traffic_routing_config_schema_def time_based_canary_schema_def
      time_based_linear_schema_def zonal_config_schema_def
      minimum_healthy_hosts_per_zone_schema_def optionalInt_def optionalEnum_def
      d_Get_def emptyBlockData_def sampleData_def sampleValues_def)
  have eg: "d_Get emptyBlockData ''minimum_healthy_hosts'' = VList [VNil]"
    by (simp add: d_Get_def emptyBlockData_def sampleData_def)
  have ee: "expandMinimumHealthyHosts emptyBlockData = Inl InterfaceConversion"
    by (simp add: expandMinimumHealthyHosts_def d_GetOk_def eg bindP_def asList_def index0_def
        asMap_def)
  have v: "validConfig wideData"
    by (auto simp add: validConfig_def resourceDeploymentConfig_Schema_def
      compute_platform_schema_def deployment_config_id_schema_def
      deployment_config_name_schema_def minimum_healthy_hosts_schema_def
      traffic_routing_config_schema_def time_based_canary_schema_def
      time_based_linear_schema_def zonal_config_schema_def
      minimum_healthy_hosts_per_zone_schema_def optionalInt_def optionalEnum_def
      d_Get_def wideData_def sampleData_def sampleValues_def)
  have g: "d_Get wideData ''minimum_healthy_hosts'' =
       VList [VMap [''type'' \<mapsto> VString ''HOST_COUNT'', ''value'' \<mapsto> VInt 4294967297]]"
    by (simp add: d_Get_def wideData_def sampleData_def)
  have e: "expandMinimumHealthyHosts wideData =
       Inr (Some \<lparr>MinimumHealthyHosts_Type = ''HOST_COUNT'', MinimumHealthyHosts_Value = 1\<rparr>)"
    by (simp add: expandMinimumHealthyHosts_def d_GetOk_def g bindP_def asList_def index0_def
        asMap_def asString_def asInt_def mapIndex_def int32_of_int_def)
  have f: "toState (VMaps (flattenMinimumHealthHosts
        (Some \<lparr>MinimumHealthyHosts_Type = ''HOST_COUNT'', MinimumHealthyHosts_Value = 1\<rparr>))) =
       VList [VMap [''type'' \<mapsto> VString ''HOST_COUNT'', ''value'' \<mapsto> VInt 1]]"
    by (simp add: flattenMinimumHealthHosts_def append_item_def toState_maps)
  have n: "[''type'' \<mapsto> VString ''HOST_COUNT'', ''value'' \<mapsto> VInt 1] \<noteq>
           [''type'' \<mapsto> VString ''HOST_COUNT'', ''value'' \<mapsto> VInt 4294967297]"
  proof
    assume "[''type'' \<mapsto> VString ''HOST_COUNT'', ''value'' \<mapsto> VInt 1] =
            [''type'' \<mapsto> VString ''HOST_COUNT'', ''value'' \<mapsto> VInt 4294967297]"
    then have "[''type'' \<mapsto> VString ''HOST_COUNT'', ''value'' \<mapsto> VInt 1] ''value'' =
            [''type'' \<mapsto> VString ''HOST_COUNT'', ''value'' \<mapsto> VInt 4294967297] ''value''"
      by (rule fun_cong)
    then show False by simp
  qed
  have p: "flattenZonalConfig
        (Some \<lparr>FirstZoneMonitorDurationInSeconds = None,
               ZonalConfig_MinimumHealthyHostsPerZone = None,
               MonitorDurationInSeconds = Some 30\<rparr>) = Inl NilDereference"
    by (simp add: flattenZonalConfig_def bindP_def deref_def)
  show ?thesis
    using v w g e n p ev eg ee unfolding f by simp
qed

theorem expand_flatten_roundtrip_witness:
  "validConfig sampleData \<and> blocksFilled sampleData \<and> int32FieldsFit sampleData
   \<and> (\<exists>a. expandMinimumHealthyHosts sampleData = Inr a \<and>
          toState (VMaps (flattenMinimumHealthHosts a)) =
            d_Get sampleData ''minimum_healthy_hosts'')
   \<and> (\<exists>a. expandTrafficRoutingConfig sampleData = Inr a \<and>
          toState (VMaps (flattenTrafficRoutingConfig a)) =
            d_Get sampleData ''traffic_routing_config'')
   \<and> (\<exists>a z. expandZonalConfig sampleData = Inr a \<and> flattenZonalConfig a = Inr z \<and>
          toState (VMaps z) = d_Get sampleData ''zonal_config'')
   \<and> expandMinimumHealthyHosts
        (snd (d_Set ''minimum_healthy_hosts''
                (VMaps (flattenMinimumHealthHosts (Info_MinimumHealthyHosts sampleInfo)))
                sampleData)) = Inr (Info_MinimumHealthyHosts sampleInfo)
   \<and> expandTrafficRoutingConfig
        (snd (d_Set ''traffic_routing_config''
                (VMaps (flattenTrafficRoutingConfig
                   (Some \<lparr>TrafficRoutingConfig_Type = ''TimeBasedLinear'',
                          TrafficRoutingConfig_TimeBasedCanary = None,
                          TrafficRoutingConfig_TimeBasedLinear =
                            Some \<lparr>LinearInterval = 5, LinearPercentage = 25\<rparr>\<rparr>)))
                sampleData)) =
        Inr (Some \<lparr>TrafficRoutingConfig_Type = ''TimeBasedLinear'',
                   TrafficRoutingConfig_TimeBasedCanary = None,
                   TrafficRoutingConfig_TimeBasedLinear =
                     Some \<lparr>LinearInterval = 5, LinearPercentage = 25\<rparr>\<rparr>)
   \<and> expandZonalConfig
        (snd (d_Set ''zonal_config''
                (VMaps (Some [[''first_zone_monitor_duration_in_seconds'' \<mapsto> VInt64Ptr (Some 60),
                               ''minimum_healthy_hosts_per_zone'' \<mapsto> VMaps None,
                               ''monitor_duration_in_seconds'' \<mapsto> VInt64Ptr (Some 30)]]))
                sampleData)) =
        Inr (Some \<lparr>FirstZoneMonitorDurationInSeconds = Some 60,
                   ZonalConfig_MinimumHealthyHostsPerZone = None,
                   MonitorDurationInSeconds = Some 30\<rparr>)"
proof -
  have s: "rd_setError sampleData k v = None" for k v
    by (simp add: sampleData_def)
  have z: "flattenZonalConfig (Some \<lparr>FirstZoneMonitorDurationInSeconds = Some 60,
                   ZonalConfig_MinimumHealthyHostsPerZone = None,
                   MonitorDurationInSeconds = Some 30\<rparr>) =
           Inr (Some [[''first_zone_monitor_duration_in_seconds'' \<mapsto> VInt64Ptr (Some 60),
                       ''minimum_healthy_hosts_per_zone'' \<mapsto> VMaps None,
                       ''monitor_duration_in_seconds'' \<mapsto> VInt64Ptr (Some 30)]])"
    by (simp add: flattenZonalConfig_def flattenMinimumHealthHostsPerZone_def bindP_def
        deref_def append_item_def)
  show ?thesis
    using expand_flatten_roundtrip
      [of sampleData "Info_MinimumHealthyHosts sampleInfo"
          "snd (d_Set ''minimum_healthy_hosts''
                  (VMaps (flattenMinimumHealthHosts (Info_MinimumHealthyHosts sampleInfo)))
                  sampleData)"
          "Some \<lparr>TrafficRoutingConfig_Type = ''TimeBasedLinear'',
                 TrafficRoutingConfig_TimeBasedCanary = None,
                 TrafficRoutingConfig_TimeBasedLinear =
                   Some \<lparr>LinearInterval = 5, LinearPercentage = 25\<rparr>\<rparr>"
          "snd (d_Set ''traffic_routing_config''
                (VMaps (flattenTrafficRoutingConfig
                   (Some \<lparr>TrafficRoutingConfig_Type = ''TimeBasedLinear'',
                          TrafficRoutingConfig_TimeBasedCanary = None,
                          TrafficRoutingConfig_TimeBasedLinear =
                            Some \<lparr>LinearInterval = 5, LinearPercentage = 25\<rparr>\<rparr>)))
                sampleData)"
          "Some \<lparr>FirstZoneMonitorDurationInSeconds = Some 60,
                   ZonalConfig_MinimumHealthyHostsPerZone = None,
                   MonitorDurationInSeconds = Some 30\<rparr>"
          "Some [[''first_zone_monitor_duration_in_seconds'' \<mapsto> VInt64Ptr (Some 60),
                  ''minimum_healthy_hosts_per_zone'' \<mapsto> VMaps None,
                  ''monitor_duration_in_seconds'' \<mapsto> VInt64Ptr (Some 30)]]"
          "snd (d_Set ''zonal_config''
                (VMaps (Some [[''first_zone_monitor_duration_in_seconds'' \<mapsto> VInt64Ptr (Some 60),
                               ''minimum_healthy_hosts_per_zone'' \<mapsto> VMaps None,
                               ''monitor_duration_in_seconds'' \<mapsto> VInt64Ptr (Some 30)]]))
                sampleData)"]
      sample_valid sample_filled sample_fits z d_Set_accepted [OF s]
    by (simp del: toState.simps)
qed

section \<open>Lookup, read, delete and create\<close>

lemma find_cases:
  assumes "GetDeploymentConfig (conn_client conn) \<lparr>Get_DeploymentConfigName = Some name\<rparr>
             (conn_remote conn) = (r, w)"
  shows "findDeploymentConfigByName conn name =
     ((case r of
         Inl err \<Rightarrow> if IsA_DeploymentConfigDoesNotExistException err
                     then Inl (NotFoundError err \<lparr>Get_DeploymentConfigName = Some name\<rparr>)
                     else Inl (ClientError err)
       | Inr None \<Rightarrow> Inl (EmptyResultError \<lparr>Get_DeploymentConfigName = Some name\<rparr>)
       | Inr (Some out) \<Rightarrow>
           (case Output_DeploymentConfigInfo out of
              None \<Rightarrow> Inl (EmptyResultError \<lparr>Get_DeploymentConfigName = Some name\<rparr>)
            | Some info \<Rightarrow> Inr info)),
      conn\<lparr>conn_remote := w,
           conn_requests := conn_requests conn @
             [GetRequest \<lparr>Get_DeploymentConfigName = Some name\<rparr>]\<rparr>)"
  using assms
  by (simp add: findDeploymentConfigByName_def conn_GetDeploymentConfig_def Let_def
      split: sum.splits option.splits)

lemma d_Set_keeps_Id: "d_Set k v d = (e, d') \<Longrightarrow> rd_Id d' = rd_Id d"
  by (auto simp add: d_Set_def split: option.splits)

lemma find_requests:
  "conn_requests (snd (findDeploymentConfigByName conn name)) =
     conn_requests conn @ [GetRequest \<lparr>Get_DeploymentConfigName = Some name\<rparr>]"
  by (simp add: findDeploymentConfigByName_def conn_GetDeploymentConfig_def Let_def
      split: prod.splits sum.splits option.splits)

lemma read_when_missing:
  assumes "findDeploymentConfigByName conn (d_Id d) = (Inl e, conn')"
    and "NotFound nf (Some e)"
  shows "resourceDeploymentConfigRead nf d conn =
     (if d_IsNewResource d
      then Inr ([ErrorDiagnostic (''reading CodeDeploy Deployment Config ('' @ d_Id d @ ''): '') e],
                d, conn')
      else Inr ([], d_SetId [] d, conn'))"
  using assms by (simp add: resourceDeploymentConfigRead_def AppendErrorf_def)

lemma read_when_failed:
  assumes "findDeploymentConfigByName conn (d_Id d) = (Inl e, conn')"
    and "\<not> NotFound nf (Some e)"
  shows "resourceDeploymentConfigRead nf d conn =
     Inr ([ErrorDiagnostic (''reading CodeDeploy Deployment Config ('' @ d_Id d @ ''): '') e],
          d, conn')"
  using assms by (simp add: resourceDeploymentConfigRead_def AppendErrorf_def)

lemma read_when_found:
  assumes f: "findDeploymentConfigByName conn (d_Id d) = (Inr info, conn1)"
    and r: "resourceDeploymentConfigRead nf d conn = Inr (diags, d', conn')"
  shows "d_Id d' = d_Id d \<and> conn' = conn1"
proof -
  obtain e1 d1 where s1: "d_Set ''compute_platform'' (VString (Info_ComputePlatform info)) d = (e1, d1)"
    by (cases "d_Set ''compute_platform'' (VString (Info_ComputePlatform info)) d")
  obtain e2 d2 where s2: "d_Set ''deployment_config_id''
      (VStringPtr (Info_DeploymentConfigId info)) d1 = (e2, d2)"
    by (cases "d_Set ''deployment_config_id'' (VStringPtr (Info_DeploymentConfigId info)) d1")
  obtain e3 d3 where s3: "d_Set ''deployment_config_name''
      (VStringPtr (Info_DeploymentConfigName info)) d2 = (e3, d3)"
    by (cases "d_Set ''deployment_config_name'' (VStringPtr (Info_DeploymentConfigName info)) d2")
  obtain e4 d4 where s4: "d_Set ''minimum_healthy_hosts''
      (VMaps (flattenMinimumHealthHosts (Info_MinimumHealthyHosts info))) d3 = (e4, d4)"
    by (cases "d_Set ''minimum_healthy_hosts''
      (VMaps (flattenMinimumHealthHosts (Info_MinimumHealthyHosts info))) d3")
  obtain e5 d5 where s5: "d_Set ''traffic_routing_config''
      (VMaps (flattenTrafficRoutingConfig (Info_TrafficRoutingConfig info))) d4 = (e5, d5)"
    by (cases "d_Set ''traffic_routing_config''
      (VMaps (flattenTrafficRoutingConfig (Info_TrafficRoutingConfig info))) d4")
  have ids: "rd_Id d1 = rd_Id d" "rd_Id d2 = rd_Id d" "rd_Id d3 = rd_Id d" "rd_Id d4 = rd_Id d"
    "rd_Id d5 = rd_Id d"
    using d_Set_keeps_Id [OF s1] d_Set_keeps_Id [OF s2] d_Set_keeps_Id [OF s3]
      d_Set_keeps_Id [OF s4] d_Set_keeps_Id [OF s5] by simp_all
  show ?thesis
    using r f s1 s2 s3 s4 s5 ids
    by (auto simp add: resourceDeploymentConfigRead_def NotFound_def bindP_def d_Id_def
        split: option.splits sum.splits prod.splits dest: d_Set_keeps_Id)
qed

lemma create_reaches_call:
  assumes "d_Get d ''deployment_config_name'' = VString name"
    and "d_Get d ''compute_platform'' = VString platform"
    and "expandMinimumHealthyHosts d = Inr hosts"
    and "expandTrafficRoutingConfig d = Inr traffic"
    and "expandZonalConfig d = Inr zonal"
    and "CreateDeploymentConfig (conn_client conn)
           \<lparr>Create_ComputePlatform = platform, Create_DeploymentConfigName = Some name,
            Create_MinimumHealthyHosts = hosts, Create_TrafficRoutingConfig = traffic,
            Create_ZonalConfig = zonal\<rparr> (conn_remote conn) = (r, w)"
  shows "resourceDeploymentConfigCreate nf d conn =
     (let input = \<lparr>Create_ComputePlatform = platform, Create_DeploymentConfigName = Some name,
                   Create_MinimumHealthyHosts = hosts, Create_TrafficRoutingConfig = traffic,
                   Create_ZonalConfig = zonal\<rparr>;
          conn1 = conn\<lparr>conn_remote := w,
                       conn_requests := conn_requests conn @ [CreateRequest input]\<rparr>
      in case r of
           Some e \<Rightarrow>
             Inr ([ErrorDiagnostic (''creating CodeDeploy Deployment Config ('' @ name @ ''): '')
                     (ClientError e)], d, conn1)
         | None \<Rightarrow> resourceDeploymentConfigRead nf (d_SetId name d) conn1)"
proof -
  have b: "bindP x Inr = x"
    for x :: "panic + (Diagnostic list \<times> ResourceData \<times> 'a conn)"
    by (cases x) (auto simp add: bindP_def)
  show ?thesis
    using assms
    by (cases r)
       (simp_all add: resourceDeploymentConfigCreate_def conn_CreateDeploymentConfig_def
          asString_def AppendErrorf_def Let_def bindP_def [of "Inr _"] b)
qed

lemma read_outcome:
  assumes r: "resourceDeploymentConfigRead nf d conn = Inr (diags, d', conn')"
  shows "conn' = snd (findDeploymentConfigByName conn (d_Id d))
       \<and> (d_IsNewResource d \<or> (\<exists>info. fst (findDeploymentConfigByName conn (d_Id d)) = Inr info)
            \<longrightarrow> d_Id d' = d_Id d)"
proof -
  obtain res conn1 where f: "findDeploymentConfigByName conn (d_Id d) = (res, conn1)"
    by (cases "findDeploymentConfigByName conn (d_Id d)")
  have "conn' = conn1 \<and> (d_IsNewResource d \<or> (\<exists>info. res = Inr info) \<longrightarrow> d_Id d' = d_Id d)"
  proof (cases res)
    case (Inl e)
    show ?thesis
    proof (cases "NotFound nf (Some e)")
      case True
      from r show ?thesis
        unfolding read_when_missing [OF f [unfolded Inl] True]
        by (auto simp add: Inl split: if_splits)
    next
      case False
      from r show ?thesis
        unfolding read_when_failed [OF f [unfolded Inl] False]
        by (auto simp add: Inl)
    qed
  next
    case (Inr info)
    from read_when_found [OF f [unfolded Inr] r] show ?thesis
      by simp
  qed
  then show ?thesis by (simp add: f)
qed

lemma sample_hosts:
  "expandMinimumHealthyHosts sampleData =
     Inr (Some \<lparr>MinimumHealthyHosts_Type = ''FLEET_PERCENT'', MinimumHealthyHosts_Value = 75\<rparr>)"
  by (simp add: expandMinimumHealthyHosts_def sampleData_def sampleValues_def d_GetOk_def
      d_Get_def bindP_def asList_def index0_def asMap_def asString_def asInt_def mapIndex_def
      int32_of_int_def)

lemma sample_traffic:
  "expandTrafficRoutingConfig sampleData =
     Inr (Some \<lparr>TrafficRoutingConfig_Type = ''TimeBasedCanary'',
                TrafficRoutingConfig_TimeBasedCanary =
                  Some \<lparr>CanaryInterval = 10, CanaryPercentage = 20\<rparr>,
                TrafficRoutingConfig_TimeBasedLinear = None\<rparr>)"
  by (simp add: expandTrafficRoutingConfig_def expandTimeBasedCanary_def sampleData_def
      sampleValues_def d_GetOk_def d_Get_def bindP_def asList_def index0_def asMap_def
      asString_def asInt_def mapIndexOk_def int32_of_int_def)

lemma sample_zonal:
  "expandZonalConfig sampleData =
     Inr (Some \<lparr>FirstZoneMonitorDurationInSeconds = Some 60,
                ZonalConfig_MinimumHealthyHostsPerZone =
                  Some \<lparr>MinimumHealthyHostsPerZone_Type = ''HOST_COUNT'',
                        MinimumHealthyHostsPerZone_Value = 1\<rparr>,
                MonitorDurationInSeconds = Some 30\<rparr>)"
  by (simp add: expandZonalConfig_def expandMinimumHealthyHostsPerZone_def sampleData_def
      sampleValues_def d_GetOk_def d_Get_def bindP_def asList_def index0_def asMap_def
      asString_def asInt_def asIntOk_def mapIndex_def mapIndexOk_def int32_of_int_def)

lemma sample_name: "d_Get sampleData ''deployment_config_name'' = VString ''N''"
  by (simp add: sampleData_def sampleValues_def d_Get_def)

lemma sample_platform: "d_Get sampleData ''compute_platform'' = VString ''Server''"
  by (simp add: sampleData_def sampleValues_def d_Get_def)

lemma sample_create_call:
  "CreateDeploymentConfig (conn_client emptyConn)
           \<lparr>Create_ComputePlatform = ''Server'', Create_DeploymentConfigName = Some ''N'',
            Create_MinimumHealthyHosts =
              Some \<lparr>MinimumHealthyHosts_Type = ''FLEET_PERCENT'', MinimumHealthyHosts_Value = 75\<rparr>,
            Create_TrafficRoutingConfig =
              Some \<lparr>TrafficRoutingConfig_Type = ''TimeBasedCanary'',
                    TrafficRoutingConfig_TimeBasedCanary =
                      Some \<lparr>CanaryInterval = 10, CanaryPercentage = 20\<rparr>,
                    TrafficRoutingConfig_TimeBasedLinear = None\<rparr>,
            Create_ZonalConfig =
              Some \<lparr>FirstZoneMonitorDurationInSeconds = Some 60,
                    ZonalConfig_MinimumHealthyHostsPerZone =
                      Some \<lparr>MinimumHealthyHostsPerZone_Type = ''HOST_COUNT'',
                            MinimumHealthyHostsPerZone_Value = 1\<rparr>,
                    MonitorDurationInSeconds = Some 30\<rparr>\<rparr> (conn_remote emptyConn) =
     (None,
      [''N'' \<mapsto>
         \<lparr>Info_ComputePlatform = ''Server'', Info_DeploymentConfigId = Some ''id-N'',
          Info_DeploymentConfigName = Some ''N'',
          Info_MinimumHealthyHosts =
            Some \<lparr>MinimumHealthyHosts_Type = ''FLEET_PERCENT'', MinimumHealthyHosts_Value = 75\<rparr>,
          Info_TrafficRoutingConfig =
            Some \<lparr>TrafficRoutingConfig_Type = ''TimeBasedCanary'',
                  TrafficRoutingConfig_TimeBasedCanary =
                    Some \<lparr>CanaryInterval = 10, CanaryPercentage = 20\<rparr>,
                  TrafficRoutingConfig_TimeBasedLinear = None\<rparr>,
          Info_ZonalConfig =
            Some \<lparr>FirstZoneMonitorDurationInSeconds = Some 60,
                  ZonalConfig_MinimumHealthyHostsPerZone =
                    Some \<lparr>MinimumHealthyHostsPerZone_Type = ''HOST_COUNT'',
                          MinimumHealthyHostsPerZone_Value = 1\<rparr>,
                  MonitorDurationInSeconds = Some 30\<rparr>\<rparr>])"
  by (simp add: emptyConn_def memoryClient_def)

lemma sample_create_runs:
  "\<exists>d' conn'. resourceDeploymentConfigCreate False sampleData emptyConn = Inr ([], d', conn')"
  unfolding create_reaches_call
    [OF sample_name sample_platform sample_hosts sample_traffic sample_zonal sample_create_call]
  by (simp add: resourceDeploymentConfigRead_def findDeploymentConfigByName_def
      conn_GetDeploymentConfig_def emptyConn_def memoryClient_def d_Id_def d_SetId_def
      d_IsNewResource_def d_Set_def sampleData_def NotFound_def flattenZonalConfig_def
      bindP_def deref_def Let_def)

text \<open>
  Claim C6. Let the client answer the lookup's request with \<open>r\<close>. The exception
  \<^verbatim>\<open>DeploymentConfigDoesNotExistException\<close> becomes the structured not-found error that
  carries it and the request, and the lookup returns that error for no other answer. Any
  other error of the client is returned as it is, and the read callback reports it in a
  diagnostic whose message names the operation and the resource. An answer with no
  error and a \<^verbatim>\<open>nil\<close> output, or an output with no info, becomes the empty-result error;
  an answer with an info is returned as the result.
\<close>

theorem findDeploymentConfigByName_translation:
  assumes "GetDeploymentConfig (conn_client conn) \<lparr>Get_DeploymentConfigName = Some name\<rparr>
             (conn_remote conn) = (r, w)"
  shows "(\<forall>msg. r = Inl (DeploymentConfigDoesNotExistException msg) \<longrightarrow>
            fst (findDeploymentConfigByName conn name) =
              Inl (NotFoundError (DeploymentConfigDoesNotExistException msg)
                     \<lparr>Get_DeploymentConfigName = Some name\<rparr>))
       \<and> (\<forall>msg. r = Inl (OtherAPIError msg) \<longrightarrow>
            fst (findDeploymentConfigByName conn name) = Inl (ClientError (OtherAPIError msg)))
       \<and> ((\<exists>e i. fst (findDeploymentConfigByName conn name) = Inl (NotFoundError e i)) \<longleftrightarrow>
            (\<exists>msg. r = Inl (DeploymentConfigDoesNotExistException msg)))
       \<and> (r = Inr None \<or> r = Inr (Some \<lparr>Output_DeploymentConfigInfo = None\<rparr>) \<longrightarrow>
            fst (findDeploymentConfigByName conn name) =
              Inl (EmptyResultError \<lparr>Get_DeploymentConfigName = Some name\<rparr>))
       \<and> (\<forall>info. r = Inr (Some \<lparr>Output_DeploymentConfigInfo = Some info\<rparr>) \<longrightarrow>
            fst (findDeploymentConfigByName conn name) = Inr info)
       \<and> (\<forall>msg d nf. r = Inl (OtherAPIError msg) \<and> d_Id d = name \<longrightarrow>
            (\<exists>conn'. resourceDeploymentConfigRead nf d conn =
               Inr ([ErrorDiagnostic (''reading CodeDeploy Deployment Config ('' @ name @ ''): '')
                       (ClientError (OtherAPIError msg))], d, conn')))"
  unfolding find_cases [OF assms]
  apply (intro conjI)
  subgoal by (simp add: IsA_DeploymentConfigDoesNotExistException_def)
  subgoal by (simp add: IsA_DeploymentConfigDoesNotExistException_def)
  subgoal by (auto simp add: IsA_DeploymentConfigDoesNotExistException_def
      split: sum.splits option.splits apiError.splits)
  subgoal by auto
  subgoal by auto
  subgoal
    by (auto simp add: resourceDeploymentConfigRead_def find_cases [OF assms]
      IsA_DeploymentConfigDoesNotExistException_def NotFound_def AppendErrorf_def)
  done

theorem findDeploymentConfigByName_translation_witness:
  "fst (findDeploymentConfigByName emptyConn ''N'') =
     Inl (NotFoundError (DeploymentConfigDoesNotExistException ''N'')
            \<lparr>Get_DeploymentConfigName = Some ''N''\<rparr>)
   \<and> fst (findDeploymentConfigByName storedConn ''N'') = Inr sampleInfo"
proof -
  have a: "GetDeploymentConfig (conn_client emptyConn) \<lparr>Get_DeploymentConfigName = Some ''N''\<rparr>
             (conn_remote emptyConn) =
           (Inl (DeploymentConfigDoesNotExistException ''N''), Map.empty)"
    by (simp add: emptyConn_def memoryClient_def)
  have b: "GetDeploymentConfig (conn_client storedConn) \<lparr>Get_DeploymentConfigName = Some ''N''\<rparr>
             (conn_remote storedConn) =
           (Inr (Some \<lparr>Output_DeploymentConfigInfo = Some sampleInfo\<rparr>), [''N'' \<mapsto> sampleInfo])"
    by (simp add: storedConn_def memoryClient_def)
  show ?thesis
    using findDeploymentConfigByName_translation [OF a]
      findDeploymentConfigByName_translation [OF b]
    by simp
qed

text \<open>
  Claim C3. Let the client answer the read's lookup with
  \<^verbatim>\<open>DeploymentConfigDoesNotExistException\<close>. When the resource is not marked new, the
  read returns no diagnostic and the data with the identifier set to the empty string
  and nothing else changed. When the resource is marked new, the read returns the data
  unchanged with one error diagnostic that carries the not-found error. Either way one
  request was sent, the lookup by the identifier.
\<close>

theorem read_not_found:
  assumes "GetDeploymentConfig (conn_client conn) \<lparr>Get_DeploymentConfigName = Some (d_Id d)\<rparr>
             (conn_remote conn) = (Inl (DeploymentConfigDoesNotExistException msg), w)"
  shows "(\<not> d_IsNewResource d \<longrightarrow>
            (\<exists>d'. resourceDeploymentConfigRead nf d conn =
                    Inr ([], d', conn\<lparr>conn_remote := w, conn_requests := conn_requests conn @
                           [GetRequest \<lparr>Get_DeploymentConfigName = Some (d_Id d)\<rparr>]\<rparr>)
                  \<and> d_Id d' = [] \<and> d' = d\<lparr>rd_Id := []\<rparr>))
       \<and> (d_IsNewResource d \<longrightarrow>
            (\<exists>diags. resourceDeploymentConfigRead nf d conn =
                    Inr (diags, d, conn\<lparr>conn_remote := w, conn_requests := conn_requests conn @
                           [GetRequest \<lparr>Get_DeploymentConfigName = Some (d_Id d)\<rparr>]\<rparr>)
                  \<and> HasError diags
                  \<and> diags = [ErrorDiagnostic
                       (''reading CodeDeploy Deployment Config ('' @ d_Id d @ ''): '')
                       (NotFoundError (DeploymentConfigDoesNotExistException msg)
                          \<lparr>Get_DeploymentConfigName = Some (d_Id d)\<rparr>)]))"
proof -
  let ?e = "NotFoundError (DeploymentConfigDoesNotExistException msg)
              \<lparr>Get_DeploymentConfigName = Some (d_Id d)\<rparr>"
  let ?c = "conn\<lparr>conn_remote := w, conn_requests := conn_requests conn @
               [GetRequest \<lparr>Get_DeploymentConfigName = Some (d_Id d)\<rparr>]\<rparr>"
  have f: "findDeploymentConfigByName conn (d_Id d) = (Inl ?e, ?c)"
    by (simp add: find_cases [OF assms] IsA_DeploymentConfigDoesNotExistException_def)
  have n: "NotFound nf (Some ?e)" by (simp add: NotFound_def)
  show ?thesis
    unfolding read_when_missing [OF f n]
    by (simp add: d_SetId_def d_Id_def HasError_def)
qed

theorem read_not_found_witness:
  "resourceDeploymentConfigRead False (sampleData\<lparr>rd_Id := ''N'', rd_IsNewResource := False\<rparr>)
     emptyConn =
     Inr ([], sampleData\<lparr>rd_Id := [], rd_IsNewResource := False\<rparr>,
          emptyConn\<lparr>conn_requests := [GetRequest \<lparr>Get_DeploymentConfigName = Some ''N''\<rparr>]\<rparr>)
   \<and> resourceDeploymentConfigRead False (sampleData\<lparr>rd_Id := ''N''\<rparr>) emptyConn =
     Inr ([ErrorDiagnostic ''reading CodeDeploy Deployment Config (N): ''
             (NotFoundError (DeploymentConfigDoesNotExistException ''N'')
                \<lparr>Get_DeploymentConfigName = Some ''N''\<rparr>)],
          sampleData\<lparr>rd_Id := ''N''\<rparr>,
          emptyConn\<lparr>conn_requests := [GetRequest \<lparr>Get_DeploymentConfigName = Some ''N''\<rparr>]\<rparr>)"
proof -
  have a: "GetDeploymentConfig (conn_client emptyConn)
             \<lparr>Get_DeploymentConfigName =
                Some (d_Id (sampleData\<lparr>rd_Id := ''N'', rd_IsNewResource := False\<rparr>))\<rparr>
             (conn_remote emptyConn) =
           (Inl (DeploymentConfigDoesNotExistException ''N''), Map.empty)"
    by (simp add: emptyConn_def memoryClient_def d_Id_def)
  have b: "GetDeploymentConfig (conn_client emptyConn)
             \<lparr>Get_DeploymentConfigName = Some (d_Id (sampleData\<lparr>rd_Id := ''N''\<rparr>))\<rparr>
             (conn_remote emptyConn) =
           (Inl (DeploymentConfigDoesNotExistException ''N''), Map.empty)"
    by (simp add: emptyConn_def memoryClient_def d_Id_def)
  have n: "d_IsNewResource (sampleData\<lparr>rd_Id := ''N''\<rparr>)"
    "\<not> d_IsNewResource (sampleData\<lparr>rd_Id := ''N'', rd_IsNewResource := False\<rparr>)"
    by (simp_all add: d_IsNewResource_def sampleData_def)
  show ?thesis
    using read_not_found [OF a, of False] read_not_found [OF b, of False] n
    by (simp add: d_Id_def emptyConn_def)
qed

text \<open>
  Claim C7. Delete sends exactly one request, the delete request that names the
  identifier of the resource; the data is unchanged. When the client answers with no
  error, there is no diagnostic. When it answers with an error, whatever it is (a
  not-found exception too), there is one error diagnostic, whose message names the
  identifier and which carries that error as it is.
\<close>

theorem delete_issues_one_request:
  assumes "DeleteDeploymentConfig (conn_client conn)
             \<lparr>Delete_DeploymentConfigName = Some (d_Id d)\<rparr> (conn_remote conn) = (r, w)"
  shows "\<exists>diags. resourceDeploymentConfigDelete d conn =
           (diags, d, conn\<lparr>conn_remote := w, conn_requests := conn_requests conn @
                       [DeleteRequest \<lparr>Delete_DeploymentConfigName = Some (d_Id d)\<rparr>]\<rparr>)
         \<and> (r = None \<longrightarrow> diags = [])
         \<and> (\<forall>e. r = Some e \<longrightarrow>
               HasError diags \<and>
               diags = [ErrorDiagnostic
                          (''deleting CodeDeploy Deployment Config ('' @ d_Id d @ ''): '')
                          (ClientError e)])"
  using assms
  by (cases r)
     (simp_all add: resourceDeploymentConfigDelete_def conn_DeleteDeploymentConfig_def
        AppendErrorf_def HasError_def)

theorem delete_issues_one_request_witness:
  "resourceDeploymentConfigDelete (sampleData\<lparr>rd_Id := ''N''\<rparr>) storedConn =
     ([], sampleData\<lparr>rd_Id := ''N''\<rparr>,
      storedConn\<lparr>conn_remote := Map.empty,
                 conn_requests := [DeleteRequest \<lparr>Delete_DeploymentConfigName = Some ''N''\<rparr>]\<rparr>)
   \<and> resourceDeploymentConfigDelete (sampleData\<lparr>rd_Id := ''N''\<rparr>) emptyConn =
     ([ErrorDiagnostic ''deleting CodeDeploy Deployment Config (N): ''
         (ClientError (DeploymentConfigDoesNotExistException ''N''))],
      sampleData\<lparr>rd_Id := ''N''\<rparr>,
      emptyConn\<lparr>conn_requests := [DeleteRequest \<lparr>Delete_DeploymentConfigName = Some ''N''\<rparr>]\<rparr>)"
proof -
  have a: "DeleteDeploymentConfig (conn_client storedConn)
             \<lparr>Delete_DeploymentConfigName = Some (d_Id (sampleData\<lparr>rd_Id := ''N''\<rparr>))\<rparr>
             (conn_remote storedConn) = (None, Map.empty)"
    by (simp add: storedConn_def memoryClient_def d_Id_def)
  have b: "DeleteDeploymentConfig (conn_client emptyConn)
             \<lparr>Delete_DeploymentConfigName = Some (d_Id (sampleData\<lparr>rd_Id := ''N''\<rparr>))\<rparr>
             (conn_remote emptyConn) =
           (Some (DeploymentConfigDoesNotExistException ''N''), Map.empty)"
    by (simp add: emptyConn_def memoryClient_def d_Id_def)
  show ?thesis
    using delete_issues_one_request [OF a] delete_issues_one_request [OF b]
    by (auto simp add: d_Id_def emptyConn_def storedConn_def)
qed

text \<open>
  Claim C5. Let create reach the remote call (no type assertion on the configuration
  panics) and let the client answer the create request with an error. Then create
  returns one error diagnostic, whose message names the configured name and which
  carries the error; the resource data is returned unchanged, so the identifier is not
  set; and the create request is the only request sent.
\<close>

theorem create_failure_keeps_state:
  assumes "d_Get d ''deployment_config_name'' = VString name"
    and "d_Get d ''compute_platform'' = VString platform"
    and "expandMinimumHealthyHosts d = Inr hosts"
    and "expandTrafficRoutingConfig d = Inr traffic"
    and "expandZonalConfig d = Inr zonal"
    and "CreateDeploymentConfig (conn_client conn)
           \<lparr>Create_ComputePlatform = platform, Create_DeploymentConfigName = Some name,
            Create_MinimumHealthyHosts = hosts, Create_TrafficRoutingConfig = traffic,
            Create_ZonalConfig = zonal\<rparr> (conn_remote conn) = (Some e, w)"
  shows "\<exists>diags conn'. resourceDeploymentConfigCreate nf d conn = Inr (diags, d, conn')
           \<and> HasError diags
           \<and> diags = [ErrorDiagnostic
                        (''creating CodeDeploy Deployment Config ('' @ name @ ''): '')
                        (ClientError e)]
           \<and> conn_requests conn' = conn_requests conn @
                [CreateRequest \<lparr>Create_ComputePlatform = platform,
                                Create_DeploymentConfigName = Some name,
                                Create_MinimumHealthyHosts = hosts,
                                Create_TrafficRoutingConfig = traffic,
                                Create_ZonalConfig = zonal\<rparr>]"
  unfolding create_reaches_call [OF assms]
  by (simp add: HasError_def)

theorem create_failure_keeps_state_witness:
  "\<exists>conn'. resourceDeploymentConfigCreate False sampleData storedConn =
     Inr ([ErrorDiagnostic ''creating CodeDeploy Deployment Config (N): ''
             (ClientError (OtherAPIError ''DeploymentConfigAlreadyExistsException''))],
          sampleData, conn')
     \<and> length (conn_requests conn') = 1"
proof -
  have a: "CreateDeploymentConfig (conn_client storedConn)
           \<lparr>Create_ComputePlatform = ''Server'', Create_DeploymentConfigName = Some ''N'',
            Create_MinimumHealthyHosts =
              Some \<lparr>MinimumHealthyHosts_Type = ''FLEET_PERCENT'', MinimumHealthyHosts_Value = 75\<rparr>,
            Create_TrafficRoutingConfig =
              Some \<lparr>TrafficRoutingConfig_Type = ''TimeBasedCanary'',
                    TrafficRoutingConfig_TimeBasedCanary =
                      Some \<lparr>CanaryInterval = 10, CanaryPercentage = 20\<rparr>,
                    TrafficRoutingConfig_TimeBasedLinear = None\<rparr>,
            Create_ZonalConfig =
              Some \<lparr>FirstZoneMonitorDurationInSeconds = Some 60,
                    ZonalConfig_MinimumHealthyHostsPerZone =
                      Some \<lparr>MinimumHealthyHostsPerZone_Type = ''HOST_COUNT'',
                            MinimumHealthyHostsPerZone_Value = 1\<rparr>,
                    MonitorDurationInSeconds = Some 30\<rparr>\<rparr> (conn_remote storedConn) =
           (Some (OtherAPIError ''DeploymentConfigAlreadyExistsException''), [''N'' \<mapsto> sampleInfo])"
    by (simp add: storedConn_def memoryClient_def)
  show ?thesis
    using create_failure_keeps_state
      [OF sample_name sample_platform sample_hosts sample_traffic sample_zonal a, of False]
    by (auto simp add: storedConn_def)
qed

text \<open>
  Claim C4. Let create reach the remote call with the configured name \<open>name\<close>, let the
  client answer the create request with no error, and let create return. Then what
  create returns is what the read callback returns on the data with the identifier set
  to \<open>name\<close>; after the create request exactly one more request is sent, the lookup by
  \<open>name\<close>; and when the lookup finds the object, or whenever the resource is marked new
  as the host marks it before create, the identifier of the returned data is \<open>name\<close>.
\<close>

theorem create_adopts_name:
  assumes "d_Get d ''deployment_config_name'' = VString name"
    and "d_Get d ''compute_platform'' = VString platform"
    and "expandMinimumHealthyHosts d = Inr hosts"
    and "expandTrafficRoutingConfig d = Inr traffic"
    and "expandZonalConfig d = Inr zonal"
    and "CreateDeploymentConfig (conn_client conn)
           \<lparr>Create_ComputePlatform = platform, Create_DeploymentConfigName = Some name,
            Create_MinimumHealthyHosts = hosts, Create_TrafficRoutingConfig = traffic,
            Create_ZonalConfig = zonal\<rparr> (conn_remote conn) = (None, w)"
    and conn1: "conn1 = conn\<lparr>conn_remote := w, conn_requests := conn_requests conn @
           [CreateRequest \<lparr>Create_ComputePlatform = platform,
                           Create_DeploymentConfigName = Some name,
                           Create_MinimumHealthyHosts = hosts,
                           Create_TrafficRoutingConfig = traffic,
                           Create_ZonalConfig = zonal\<rparr>]\<rparr>"
    and res: "resourceDeploymentConfigCreate nf d conn = Inr (diags, d', conn')"
  shows "resourceDeploymentConfigRead nf (d\<lparr>rd_Id := name\<rparr>) conn1 = Inr (diags, d', conn')
       \<and> conn_requests conn' = conn_requests conn1 @
            [GetRequest \<lparr>Get_DeploymentConfigName = Some name\<rparr>]
       \<and> (d_IsNewResource d \<longrightarrow> d_Id d' = name)
       \<and> ((\<exists>info. fst (findDeploymentConfigByName conn1 name) = Inr info) \<longrightarrow> d_Id d' = name)"
proof -
  have r: "resourceDeploymentConfigRead nf (d_SetId name d) conn1 = Inr (diags, d', conn')"
    using res unfolding create_reaches_call [OF assms(1-6)] conn1 by simp
  have i: "d_Id (d_SetId name d) = name" "d_IsNewResource (d_SetId name d) = d_IsNewResource d"
    by (simp_all add: d_Id_def d_SetId_def d_IsNewResource_def)
  from read_outcome [OF r] have "conn' = snd (findDeploymentConfigByName conn1 name)"
    and "d_IsNewResource d \<or> (\<exists>info. fst (findDeploymentConfigByName conn1 name) = Inr info)
           \<longrightarrow> d_Id d' = name"
    unfolding i by simp_all
  moreover have "conn_requests (snd (findDeploymentConfigByName conn1 name)) =
      conn_requests conn1 @ [GetRequest \<lparr>Get_DeploymentConfigName = Some name\<rparr>]"
    by (rule find_requests)
  ultimately show ?thesis
    using r by (simp add: d_SetId_def)
qed

theorem create_adopts_name_witness:
  "\<exists>d' conn'. resourceDeploymentConfigCreate False sampleData emptyConn = Inr ([], d', conn')
     \<and> d_Id d' = ''N''
     \<and> (\<exists>input. conn_requests conn' =
           [CreateRequest input, GetRequest \<lparr>Get_DeploymentConfigName = Some ''N''\<rparr>]
           \<and> Create_DeploymentConfigName input = Some ''N'')"
proof -
  from sample_create_runs obtain d' conn' where
    r: "resourceDeploymentConfigCreate False sampleData emptyConn = Inr ([], d', conn')"
    by blast
  have n: "d_IsNewResource sampleData"
    by (simp add: d_IsNewResource_def sampleData_def)
  from create_adopts_name
    [OF sample_name sample_platform sample_hosts sample_traffic sample_zonal sample_create_call
        refl r] n
  have "d_Id d' = ''N''" and "\<exists>input. conn_requests conn' =
           [CreateRequest input, GetRequest \<lparr>Get_DeploymentConfigName = Some ''N''\<rparr>]
           \<and> Create_DeploymentConfigName input = Some ''N''"
    by (simp_all add: emptyConn_def)
  with r show ?thesis by blast
qed

section \<open>Mutually exclusive sub-blocks\<close>

lemma parse_time_based_linear:
  "parseAddress ''traffic_routing_config.0.time_based_linear'' =
     [Key ''traffic_routing_config'', Index 0, Key ''time_based_linear'']"
  by (simp add: parseAddress_def segmentOf_def isDigit_def natOfDigits_def)

lemma parse_time_based_canary:
  "parseAddress ''traffic_routing_config.0.time_based_canary'' =
     [Key ''traffic_routing_config'', Index 0, Key ''time_based_canary'']"
  by (simp add: parseAddress_def segmentOf_def isDigit_def natOfDigits_def)

lemma sample_not_rejected: "validateResource (VMap sampleValues) = []"
  by (simp add: validateResource_def resourceDeploymentConfig_Schema_def
      compute_platform_schema_def deployment_config_id_schema_def
      deployment_config_name_schema_def minimum_healthy_hosts_schema_def
      traffic_routing_config_schema_def time_based_canary_schema_def
      time_based_linear_schema_def zonal_config_schema_def
      minimum_healthy_hosts_per_zone_schema_def optionalInt_def optionalEnum_def
      sampleValues_def validateConflictingAttributes_def isSetAt_def
      parse_time_based_linear parse_time_based_canary)

lemma isSetAt_block:
  assumes "isSetAt (VMap config) [Key a, Index 0, Key b]"
  shows "\<exists>x xs m v. config a = Some (VList (x # xs)) \<and> x = VMap m \<and> m b = Some v \<and> \<not> isZero v"
proof -
  from assms obtain v1 where 1: "config a = Some v1"
    and l1: "isSetAt v1 [Index 0, Key b]"
    by (auto simp add: isSetAt_def split: option.splits)
  from l1 obtain x xs where 2: "v1 = VList (x # xs)" and l2: "isSetAt x [Key b]"
    by (cases v1; cases "case v1 of VList ys \<Rightarrow> ys | _ \<Rightarrow> []")
       (auto simp add: isSetAt_def split: option.splits if_splits)
  from l2 obtain m v where "x = VMap m" "m b = Some v" "\<not> isZero v"
    by (cases x) (auto simp add: isSetAt_def split: option.splits)
  with 1 2 show ?thesis by blast
qed

lemma validateField_nested:
  assumes "lookupPath c path = Some (VList xs)" and "i < length xs" and "(k, s) \<in> set elem"
    and "e \<in> set (validateField c (path @ [Index i, Key k]) s)"
  shows "e \<in> set (validateField c path (Schema ty opt req cmpd fnew dflt vd maxItems cw elem))"
proof -
  from assms(2) have "xs \<noteq> []" by auto
  with assms show ?thesis
    by (auto simp del: validateField.simps simp add: validateField.simps [of c path] intro!: bexI [of _ i] bexI [of _ "(k, s)"])
qed

lemma validateField_conflict:
  assumes "lookupPath c path = Some v" and "\<not> isZero v" and "isSetAt c (parseAddress ck)"
  shows "ConflictsWithError path ck
           \<in> set (validateField c path (Schema ty opt req cmpd fnew dflt vd maxItems [ck] elem))"
  using assms by (simp add: validateConflictingAttributes_def)

text \<open>
  Claim C8. Let a configuration set both \<open>time_based_canary\<close> and \<open>time_based_linear\<close>
  in its traffic routing block. Then validation against the schema of this resource
  reports the conflict that \<open>time_based_canary\<close> declares with
  \<^verbatim>\<open>traffic_routing_config.0.time_based_linear\<close>, the host rejects the configuration,
  and the connection is returned as it was: the create callback is not called and no
  request is sent.
\<close>

theorem conflicting_sub_blocks_rejected:
  assumes c: "isSetAt (VMap config) [Key ''traffic_routing_config'', Index 0, Key ''time_based_canary'']"
    and l: "isSetAt (VMap config) [Key ''traffic_routing_config'', Index 0, Key ''time_based_linear'']"
  shows "\<exists>errs. hostCreate emptyIsNotFound setError config conn = Rejected errs conn
           \<and> ConflictsWithError
                [Key ''traffic_routing_config'', Index 0, Key ''time_based_canary'']
                ''traffic_routing_config.0.time_based_linear'' \<in> set errs"
proof -
  let ?e = "ConflictsWithError
                [Key ''traffic_routing_config'', Index 0, Key ''time_based_canary'']
                ''traffic_routing_config.0.time_based_linear''"
  from isSetAt_block [OF c] obtain xs m cv where
    s: "config ''traffic_routing_config'' = Some (VList (VMap m # xs))"
       "m ''time_based_canary'' = Some cv" "\<not> isZero cv"
    by blast
  have p: "lookupPath (VMap config)
             [Key ''traffic_routing_config'', Index 0, Key ''time_based_canary''] = Some cv"
    using s by simp
  have "?e \<in> set (validateField (VMap config)
             [Key ''traffic_routing_config'', Index 0, Key ''time_based_canary'']
             time_based_canary_schema)"
    unfolding time_based_canary_schema_def
    using p s(3) l by (intro validateField_conflict) (simp_all add: parse_time_based_linear)
  then have "?e \<in> set (validateField (VMap config)
             ([Key ''traffic_routing_config''] @ [Index 0, Key ''time_based_canary''])
             time_based_canary_schema)"
    by simp
  then have "?e \<in> set (validateField (VMap config) [Key ''traffic_routing_config'']
                traffic_routing_config_schema)"
    unfolding traffic_routing_config_schema_def
    using s by (intro validateField_nested [where xs = "VMap m # xs" and i = 0
          and k = "''time_based_canary''" and s = time_based_canary_schema]) simp_all
  then have "?e \<in> set (validateResource (VMap config))"
    by (simp add: validateResource_def resourceDeploymentConfig_Schema_def)
  then show ?thesis
    by (auto simp add: hostCreate_def Let_def)
qed

theorem conflicting_sub_blocks_rejected_witness:
  "\<exists>errs. hostCreate False (\<lambda>k v. None) bothValues emptyConn = Rejected errs emptyConn
           \<and> ConflictsWithError
                [Key ''traffic_routing_config'', Index 0, Key ''time_based_canary'']
                ''traffic_routing_config.0.time_based_linear'' \<in> set errs"
proof -
  have c: "isSetAt (VMap bothValues)
             [Key ''traffic_routing_config'', Index 0, Key ''time_based_canary'']"
    by (simp add: isSetAt_def bothValues_def)
  have l: "isSetAt (VMap bothValues)
             [Key ''traffic_routing_config'', Index 0, Key ''time_based_linear'']"
    by (simp add: isSetAt_def bothValues_def)
  show ?thesis
    using conflicting_sub_blocks_rejected [OF c l] by blast
qed

end
